theory Spec2Isabelle
  imports Main
begin

section \<open>Data model\<close>

text \<open>
  The notification service is a client of a hosted relational backend. Two
  files hold it: \<^verbatim>\<open>src/unnamed/part_001\<close> (direct update first, a cascade of
  three strategies for the global feed, the extra \<^verbatim>\<open>jatuh_tempo\<close> fetch) and
  \<^verbatim>\<open>src/unnamed/part_000\<close> (remote procedure first, one strategy for the
  global feed). Definitions without a suffix embed \<^verbatim>\<open>part_001\<close>; a definition
  that embeds a function of \<^verbatim>\<open>part_000\<close> which differs carries the suffix
  \<open>0\<close>. \<^verbatim>\<open>getUnreadCount\<close> and \<^verbatim>\<open>markAllAsRead\<close> are the same in both files.

  A timestamp is kept as what \<^verbatim>\<open>new Date(v).getTime()\<close> makes of the stored
  value: an instant in milliseconds, or \<^verbatim>\<open>NaN\<close> for a value that is no date.
\<close>

datatype date = Instant int | Invalid_Date

fun getTime :: "date \<Rightarrow> int option" where
  "getTime (Instant t) = Some t"
| "getTime Invalid_Date = None"

datatype source = Global | Transaction

type_synonym payload = "(string \<times> string) list"

text \<open>Rows of the four tables. A nullable column is an option.\<close>

record transaksi_row =
  t_id :: string
  t_anggota_id :: string

record tn_row =
  tn_id :: string
  tn_judul :: string
  tn_pesan :: string
  tn_jenis :: "string option"
  tn_data :: "payload option"
  tn_is_read :: "bool option"
  tn_created_at :: date
  tn_updated_at :: "date option"
  tn_transaksi_id :: "string option"

record gn_row =
  gn_id :: string
  gn_judul :: string
  gn_pesan :: string
  gn_jenis :: "string option"
  gn_data :: "payload option"
  gn_created_at :: date
  gn_updated_at :: "date option"

text \<open>
  A row of \<^verbatim>\<open>global_notifikasi_read\<close>. The key the database generates for it
  is never read by the service and is left out.
\<close>

record gr_row =
  gr_global_notifikasi_id :: string
  gr_anggota_id :: string
  gr_is_read :: bool
  gr_created_at :: date
  gr_updated_at :: date

record database =
  transaksi :: "transaksi_row list"
  transaksi_notifikasi :: "tn_row list"
  global_notifikasi :: "gn_row list"
  global_notifikasi_read :: "gr_row list"

text \<open>The unified shape \<^verbatim>\<open>Notification\<close> that the service returns.\<close>

record notification =
  n_id :: string
  n_judul :: string
  n_pesan :: string
  n_jenis :: "string option"
  n_data :: payload
  n_is_read :: bool
  n_created_at :: date
  n_updated_at :: date
  n_source :: source
  n_transaksi_id :: "string option"
  n_global_notifikasi_id :: "string option"
  n_anggota_id :: string

section \<open>The remote interface\<close>

text \<open>
  Every \<^verbatim>\<open>await supabase...\<close> is one request. It answers with data, with
  \<^verbatim>\<open>{data: null, error: null}\<close>, with an error, or the await throws.
\<close>

datatype error_code = PGRST116 | Other_Error

datatype 'a reply = Data 'a | Null | Error error_code | Throws

datatype request =
    Rpc_get_member_transaction_notifications
  | Rpc_get_member_global_notifications
  | Rpc_mark_notification_as_read
  | Rpc_get_member_notifications
  | Select_transaksi
  | Select_transaksi_notifikasi_in
  | Select_transaksi_notifikasi_jenis
  | Select_transaksi_notifikasi_id
  | Count_transaksi_notifikasi_unread
  | Update_transaksi_notifikasi_id
  | Update_transaksi_notifikasi_in
  | Select_global_notifikasi
  | Select_global_notifikasi_inner
  | Select_global_notifikasi_left
  | Select_global_notifikasi_id
  | Select_global_notifikasi_read_member
  | Select_global_notifikasi_read_pair
  | Count_global_notifikasi_read_unread
  | Update_global_notifikasi_read_pair
  | Update_global_notifikasi_read_member
  | Insert_global_notifikasi_read

text \<open>
  A table request either goes through, or returns an error (other than the
  row-count error \<^verbatim>\<open>PGRST116\<close>, which \<^verbatim>\<open>.single()\<close> reports by itself), or
  throws. A failed mutation changes nothing.
\<close>

datatype fault = No_Fault | Fails | Throwing

text \<open>Rows that the remote procedures return.\<close>

record gf_row =
  gf_notification :: gn_row
  gf_is_read :: "bool option"

record mark_result =
  mr_success :: bool
  mr_message :: string

record mn_row =
  mn_id :: string
  mn_transaksi_id :: "string option"

text \<open>
  The remote procedures are server code that is not part of the repository:
  what they answer, and what they do to the tables, is a parameter. So are
  the faults of the table requests and the clock.
\<close>

record remote =
  fault :: "request \<Rightarrow> fault"
  get_member_transaction_notifications ::
    "database \<Rightarrow> string \<Rightarrow> nat \<Rightarrow> tn_row list reply"
  get_member_global_notifications ::
    "database \<Rightarrow> string \<Rightarrow> gf_row list reply"
  mark_notification_as_read ::
    "database \<Rightarrow> string \<Rightarrow> string \<Rightarrow> string \<Rightarrow> mark_result reply \<times> database"
  mark_notification_as_read0 ::
    "database \<Rightarrow> string \<Rightarrow> source option \<Rightarrow> string \<Rightarrow> bool reply \<times> database"
  get_member_notifications ::
    "database \<Rightarrow> string \<Rightarrow> nat \<Rightarrow> mn_row list reply"
  now :: date

text \<open>
  The state: the tables, the module-level \<^verbatim>\<open>notificationCache\<close>, and the
  requests sent so far (oldest first).
\<close>

record world =
  db :: database
  notificationCache :: "string \<rightharpoonup> notification list"
  requests :: "request list"

datatype 'a outcome = Returns 'a | Thrown

definition send :: "request \<Rightarrow> world \<Rightarrow> world" where
  "send q w = w\<lparr>requests := requests w @ [q]\<rparr>"

definition respond :: "remote \<Rightarrow> request \<Rightarrow> 'a \<Rightarrow> world \<Rightarrow> 'a reply \<times> world" where
  "respond r q x w =
     ((case fault r q of
         No_Fault \<Rightarrow> Data x
       | Fails \<Rightarrow> Error Other_Error
       | Throwing \<Rightarrow> Throws), send q w)"

text \<open>\<^verbatim>\<open>.single()\<close>: exactly one row, or the error \<^verbatim>\<open>PGRST116\<close>.\<close>

definition respond_single :: "remote \<Rightarrow> request \<Rightarrow> 'a list \<Rightarrow> world \<Rightarrow> 'a reply \<times> world" where
  "respond_single r q rows w =
     ((case fault r q of
         No_Fault \<Rightarrow> (case rows of [x] \<Rightarrow> Data x | _ \<Rightarrow> Error PGRST116)
       | Fails \<Rightarrow> Error Other_Error
       | Throwing \<Rightarrow> Throws), send q w)"

definition respond_mutation ::
  "remote \<Rightarrow> request \<Rightarrow> (database \<Rightarrow> database) \<Rightarrow> world \<Rightarrow> unit reply \<times> world" where
  "respond_mutation r q f w =
     (case fault r q of
        No_Fault \<Rightarrow> (Data (), (send q w)\<lparr>db := f (db w)\<rparr>)
      | Fails \<Rightarrow> (Error Other_Error, send q w)
      | Throwing \<Rightarrow> (Throws, send q w))"

subsection \<open>Ordering and limiting rows\<close>

fun insert_by :: "('a \<Rightarrow> 'a \<Rightarrow> bool) \<Rightarrow> 'a \<Rightarrow> 'a list \<Rightarrow> 'a list" where
  "insert_by le x [] = [x]"
| "insert_by le x (y # ys) = (if le x y then x # y # ys else y # insert_by le x ys)"

definition sort_by :: "('a \<Rightarrow> 'a \<Rightarrow> bool) \<Rightarrow> 'a list \<Rightarrow> 'a list" where
  "sort_by le xs = foldr (insert_by le) xs []"

text \<open>
  \<^verbatim>\<open>.order("created_at", {ascending: false})\<close>: newest first, rows without a
  timestamp first of all, as the database orders nulls in a descending order.
\<close>

definition db_desc :: "date \<Rightarrow> date \<Rightarrow> bool" where
  "db_desc x y =
     (case getTime x of
        None \<Rightarrow> True
      | Some a \<Rightarrow> (case getTime y of None \<Rightarrow> False | Some b \<Rightarrow> b \<le> a))"

definition order_desc :: "('a \<Rightarrow> date) \<Rightarrow> 'a list \<Rightarrow> 'a list" where
  "order_desc created_at rows = sort_by (\<lambda>x y. db_desc (created_at x) (created_at y)) rows"

subsection \<open>The requests of \<^verbatim>\<open>getUnreadCount\<close>\<close>

definition count_transaksi_notifikasi_unread :: "remote \<Rightarrow> world \<Rightarrow> nat reply \<times> world" where
  "count_transaksi_notifikasi_unread r w =
     respond r Count_transaksi_notifikasi_unread
       (length (filter (\<lambda>n. tn_is_read n = Some False) (transaksi_notifikasi (db w)))) w"

definition count_global_notifikasi_read_unread ::
  "remote \<Rightarrow> string \<Rightarrow> world \<Rightarrow> nat reply \<times> world" where
  "count_global_notifikasi_read_unread r anggotaId w =
     respond r Count_global_notifikasi_read_unread
       (length (filter (\<lambda>s. gr_anggota_id s = anggotaId \<and> gr_is_read s = False)
          (global_notifikasi_read (db w)))) w"

section \<open>\<^verbatim>\<open>getUnreadCount\<close>\<close>

text \<open>\<^verbatim>\<open>count || 0\<close>\<close>

definition or_zero :: "nat reply \<Rightarrow> nat" where
  "or_zero c = (case c of Data n \<Rightarrow> n | _ \<Rightarrow> 0)"

definition getUnreadCount :: "remote \<Rightarrow> string \<Rightarrow> world \<Rightarrow> nat outcome \<times> world" where
  "getUnreadCount r anggotaId w =
     (case count_transaksi_notifikasi_unread r w of
        (Throws, w1) \<Rightarrow> (Returns 0, w1)
      | (Error transactionError, w1) \<Rightarrow> (Returns 0, w1)
      | (transactionCount, w1) \<Rightarrow>
          (case count_global_notifikasi_read_unread r anggotaId w1 of
             (Throws, w2) \<Rightarrow> (Returns 0, w2)
           | (Error globalError, w2) \<Rightarrow> (Returns (or_zero transactionCount), w2)
           | (globalCount, w2) \<Rightarrow>
               (Returns (or_zero transactionCount + or_zero globalCount), w2)))"

section \<open>\<^verbatim>\<open>markAllAsRead\<close>\<close>

definition select_transaksi :: "remote \<Rightarrow> string \<Rightarrow> world \<Rightarrow> transaksi_row list reply \<times> world" where
  "select_transaksi r anggotaId w =
     respond r Select_transaksi
       (filter (\<lambda>t. t_anggota_id t = anggotaId) (transaksi (db w))) w"

text \<open>\<^verbatim>\<open>.in("transaksi_id", transactionIds)\<close>\<close>

definition transaksi_id_in :: "string list \<Rightarrow> tn_row \<Rightarrow> bool" where
  "transaksi_id_in transactionIds n =
     (case tn_transaksi_id n of None \<Rightarrow> False | Some t \<Rightarrow> t \<in> set transactionIds)"

text \<open>
  What the two updates of \<^verbatim>\<open>markAllAsRead\<close> do to the tables:
  \<^verbatim>\<open>.update({is_read: true, updated_at}).eq("is_read", false).in(...)\<close> and
  \<^verbatim>\<open>.update({is_read: true, updated_at}).eq("anggota_id", ...).eq("is_read", false)\<close>.
\<close>

definition set_read_in :: "date \<Rightarrow> string list \<Rightarrow> database \<Rightarrow> database" where
  "set_read_in updated_at transactionIds d =
     d\<lparr>transaksi_notifikasi :=
        map (\<lambda>n. if tn_is_read n = Some False \<and> transaksi_id_in transactionIds n
                  then n\<lparr>tn_is_read := Some True, tn_updated_at := Some updated_at\<rparr>
                  else n)
          (transaksi_notifikasi d)\<rparr>"

definition set_read_member :: "date \<Rightarrow> string \<Rightarrow> database \<Rightarrow> database" where
  "set_read_member updated_at anggotaId d =
     d\<lparr>global_notifikasi_read :=
        map (\<lambda>s. if gr_anggota_id s = anggotaId \<and> gr_is_read s = False
                  then s\<lparr>gr_is_read := True, gr_updated_at := updated_at\<rparr>
                  else s)
          (global_notifikasi_read d)\<rparr>"

definition update_transaksi_notifikasi_in ::
  "remote \<Rightarrow> string list \<Rightarrow> world \<Rightarrow> unit reply \<times> world" where
  "update_transaksi_notifikasi_in r transactionIds w =
     respond_mutation r Update_transaksi_notifikasi_in (set_read_in (now r) transactionIds) w"

definition update_global_notifikasi_read_member ::
  "remote \<Rightarrow> string \<Rightarrow> world \<Rightarrow> unit reply \<times> world" where
  "update_global_notifikasi_read_member r anggotaId w =
     respond_mutation r Update_global_notifikasi_read_member (set_read_member (now r) anggotaId) w"

text \<open>
  The first block of \<^verbatim>\<open>markAllAsRead\<close>: the value of \<^verbatim>\<open>success\<close> after the
  member's transaction notifications, or the exception of one of its awaits.
\<close>

definition markAllAsRead_transactions ::
  "remote \<Rightarrow> string \<Rightarrow> world \<Rightarrow> bool outcome \<times> world" where
  "markAllAsRead_transactions r anggotaId w =
     (case select_transaksi r anggotaId w of
        (Throws, w1) \<Rightarrow> (Thrown, w1)
      | (Error transQueryError, w1) \<Rightarrow> (Returns False, w1)
      | (Null, w1) \<Rightarrow> (Returns True, w1)
      | (Data transactions, w1) \<Rightarrow>
          if transactions \<noteq> [] then
            (case update_transaksi_notifikasi_in r (map t_id transactions) w1 of
               (Throws, w2) \<Rightarrow> (Thrown, w2)
             | (Error transactionError, w2) \<Rightarrow> (Returns False, w2)
             | (_, w2) \<Rightarrow> (Returns True, w2))
          else (Returns True, w1))"

definition markAllAsRead :: "remote \<Rightarrow> string \<Rightarrow> world \<Rightarrow> bool outcome \<times> world" where
  "markAllAsRead r anggotaId w =
     (case markAllAsRead_transactions r anggotaId w of
        (Thrown, w2) \<Rightarrow> (Returns False, w2)
      | (Returns success, w2) \<Rightarrow>
          (case update_global_notifikasi_read_member r anggotaId w2 of
             (Throws, w3) \<Rightarrow> (Returns False, w3)
           | (Error globalError, w3) \<Rightarrow> (Returns False, w3)
           | (_, w3) \<Rightarrow> (Returns success, w3)))"

section \<open>\<^verbatim>\<open>markAsRead\<close> and its two layers\<close>

definition clearCache :: "world \<Rightarrow> world" where
  "clearCache w = w\<lparr>notificationCache := Map.empty\<rparr>"

text \<open>\<^verbatim>\<open>!anggotaId\<close> holds of a missing value and of the empty string.\<close>

definition truthy :: "string option \<Rightarrow> bool" where
  "truthy v = (case v of None \<Rightarrow> False | Some s \<Rightarrow> s \<noteq> [])"

definition source_name :: "source \<Rightarrow> string" where
  "source_name s = (case s of Global \<Rightarrow> ''global'' | Transaction \<Rightarrow> ''transaction'')"

definition rpc_mark_notification_as_read ::
  "remote \<Rightarrow> string \<Rightarrow> string \<Rightarrow> string \<Rightarrow> world \<Rightarrow> mark_result reply \<times> world" where
  "rpc_mark_notification_as_read r notification_id member_id notification_source w =
     (case mark_notification_as_read r (db w) notification_id member_id notification_source of
        (answer, d) \<Rightarrow> (answer, (send Rpc_mark_notification_as_read w)\<lparr>db := d\<rparr>))"

definition markAsReadUsingFunction ::
  "remote \<Rightarrow> string \<Rightarrow> source option \<Rightarrow> string \<Rightarrow> world \<Rightarrow> bool outcome \<times> world" where
  "markAsReadUsingFunction r notificationId source anggotaId w =
     (let sourceParam = (case source of None \<Rightarrow> ''auto'' | Some s \<Rightarrow> source_name s) in
      case rpc_mark_notification_as_read r notificationId anggotaId sourceParam w of
        (Throws, w1) \<Rightarrow> (Returns False, w1)
      | (Error e, w1) \<Rightarrow> (Returns False, w1)
      | (Null, w1) \<Rightarrow> (Returns False, w1)
      | (Data d, w1) \<Rightarrow> (Returns (mr_success d), w1))"

definition select_transaksi_notifikasi_id ::
  "remote \<Rightarrow> string \<Rightarrow> world \<Rightarrow> tn_row reply \<times> world" where
  "select_transaksi_notifikasi_id r notificationId w =
     respond_single r Select_transaksi_notifikasi_id
       (filter (\<lambda>n. tn_id n = notificationId) (transaksi_notifikasi (db w))) w"

text \<open>\<^verbatim>\<open>.update({is_read: true, updated_at}).eq("id", notificationId)\<close>\<close>

definition set_read_id :: "date \<Rightarrow> string \<Rightarrow> database \<Rightarrow> database" where
  "set_read_id updated_at notificationId d =
     d\<lparr>transaksi_notifikasi :=
        map (\<lambda>n. if tn_id n = notificationId
                  then n\<lparr>tn_is_read := Some True, tn_updated_at := Some updated_at\<rparr>
                  else n)
          (transaksi_notifikasi d)\<rparr>"

definition update_transaksi_notifikasi_id ::
  "remote \<Rightarrow> string \<Rightarrow> world \<Rightarrow> unit reply \<times> world" where
  "update_transaksi_notifikasi_id r notificationId w =
     respond_mutation r Update_transaksi_notifikasi_id (set_read_id (now r) notificationId) w"

definition select_global_notifikasi_id ::
  "remote \<Rightarrow> string \<Rightarrow> world \<Rightarrow> gn_row reply \<times> world" where
  "select_global_notifikasi_id r notificationId w =
     respond_single r Select_global_notifikasi_id
       (filter (\<lambda>g. gn_id g = notificationId) (global_notifikasi (db w))) w"

text \<open>The read-status rows of one (notification, member) pair.\<close>

definition pair_rows :: "string \<Rightarrow> string \<Rightarrow> gr_row list \<Rightarrow> gr_row list" where
  "pair_rows notificationId anggotaId rows =
     filter (\<lambda>s. gr_global_notifikasi_id s = notificationId \<and> gr_anggota_id s = anggotaId) rows"

definition select_global_notifikasi_read_pair ::
  "remote \<Rightarrow> string \<Rightarrow> string \<Rightarrow> world \<Rightarrow> gr_row reply \<times> world" where
  "select_global_notifikasi_read_pair r notificationId anggotaId w =
     respond_single r Select_global_notifikasi_read_pair
       (pair_rows notificationId anggotaId (global_notifikasi_read (db w))) w"

text \<open>
  The update and the insert of a read-status row. The insert appends: the
  model has no uniqueness constraint of the database to fall back on.
\<close>

definition set_read_pair :: "date \<Rightarrow> string \<Rightarrow> string \<Rightarrow> database \<Rightarrow> database" where
  "set_read_pair updated_at notificationId anggotaId d =
     d\<lparr>global_notifikasi_read :=
        map (\<lambda>s. if gr_global_notifikasi_id s = notificationId \<and> gr_anggota_id s = anggotaId
                  then s\<lparr>gr_is_read := True, gr_updated_at := updated_at\<rparr>
                  else s)
          (global_notifikasi_read d)\<rparr>"

definition insert_read_pair :: "date \<Rightarrow> string \<Rightarrow> string \<Rightarrow> database \<Rightarrow> database" where
  "insert_read_pair created_at notificationId anggotaId d =
     d\<lparr>global_notifikasi_read :=
        global_notifikasi_read d @
        [\<lparr>gr_global_notifikasi_id = notificationId, gr_anggota_id = anggotaId,
          gr_is_read = True, gr_created_at = created_at, gr_updated_at = created_at\<rparr>]\<rparr>"

definition update_global_notifikasi_read_pair ::
  "remote \<Rightarrow> string \<Rightarrow> string \<Rightarrow> world \<Rightarrow> unit reply \<times> world" where
  "update_global_notifikasi_read_pair r notificationId anggotaId w =
     respond_mutation r Update_global_notifikasi_read_pair
       (set_read_pair (now r) notificationId anggotaId) w"

definition insert_global_notifikasi_read ::
  "remote \<Rightarrow> string \<Rightarrow> string \<Rightarrow> world \<Rightarrow> unit reply \<times> world" where
  "insert_global_notifikasi_read r notificationId anggotaId w =
     respond_mutation r Insert_global_notifikasi_read
       (insert_read_pair (now r) notificationId anggotaId) w"

definition markAsReadDirectly ::
  "remote \<Rightarrow> string \<Rightarrow> source \<Rightarrow> string \<Rightarrow> world \<Rightarrow> bool outcome \<times> world" where
  "markAsReadDirectly r notificationId source anggotaId w =
     (case source of
        Transaction \<Rightarrow>
          (case select_transaksi_notifikasi_id r notificationId w of
             (Throws, w1) \<Rightarrow> (Returns False, w1)
           | (Error checkError, w1) \<Rightarrow> (Returns False, w1)
           | (Null, w1) \<Rightarrow> (Returns False, w1)
           | (Data checkData, w1) \<Rightarrow>
               (case update_transaksi_notifikasi_id r notificationId w1 of
                  (Throws, w2) \<Rightarrow> (Returns False, w2)
                | (Error updateError, w2) \<Rightarrow> (Returns False, w2)
                | (_, w2) \<Rightarrow> (Returns True, w2)))
      | Global \<Rightarrow>
          (case select_global_notifikasi_id r notificationId w of
             (Throws, w1) \<Rightarrow> (Returns False, w1)
           | (Error checkError, w1) \<Rightarrow> (Returns False, w1)
           | (Null, w1) \<Rightarrow> (Returns False, w1)
           | (Data checkData, w1) \<Rightarrow>
               (case select_global_notifikasi_read_pair r notificationId anggotaId w1 of
                  (Throws, w2) \<Rightarrow> (Returns False, w2)
                | (Error Other_Error, w2) \<Rightarrow> (Returns False, w2)
                | (Data readStatusData, w2) \<Rightarrow>
                    (case update_global_notifikasi_read_pair r notificationId anggotaId w2 of
                       (Throws, w3) \<Rightarrow> (Returns False, w3)
                     | (Error updateError, w3) \<Rightarrow> (Returns False, w3)
                     | (_, w3) \<Rightarrow> (Returns True, w3))
                | (_, w2) \<Rightarrow>
                    (case insert_global_notifikasi_read r notificationId anggotaId w2 of
                       (Throws, w3) \<Rightarrow> (Returns False, w3)
                     | (Error insertError, w3) \<Rightarrow> (Returns False, w3)
                     | (_, w3) \<Rightarrow> (Returns True, w3)))))"

definition markAsReadDirect ::
  "remote \<Rightarrow> string \<Rightarrow> source option \<Rightarrow> string option \<Rightarrow> world \<Rightarrow> bool outcome \<times> world" where
  "markAsReadDirect r notificationId source anggotaId w =
     (if \<not> truthy anggotaId then (Returns False, w)
      else
        (case source of
           Some s \<Rightarrow> markAsReadDirectly r notificationId s (the anggotaId) w
         | None \<Rightarrow>
             (case markAsReadDirectly r notificationId Transaction (the anggotaId) w of
                (Returns True, w1) \<Rightarrow> (Returns True, w1)
              | (Returns False, w1) \<Rightarrow>
                  markAsReadDirectly r notificationId Global (the anggotaId) w1
              | (Thrown, w1) \<Rightarrow> (Returns False, w1))))"

definition markAsRead ::
  "remote \<Rightarrow> string \<Rightarrow> source option \<Rightarrow> string option \<Rightarrow> world \<Rightarrow> bool outcome \<times> world" where
  "markAsRead r notificationId source anggotaId w =
     (if \<not> truthy anggotaId then (Returns False, w)
      else
        (case markAsReadDirect r notificationId source anggotaId w of
           (Returns True, w1) \<Rightarrow> (Returns True, clearCache w1)
         | (Thrown, w1) \<Rightarrow> (Returns False, w1)
         | (Returns False, w1) \<Rightarrow>
             (case markAsReadUsingFunction r notificationId source (the anggotaId) w1 of
                (Returns True, w2) \<Rightarrow> (Returns True, clearCache w2)
              | (Returns False, w2) \<Rightarrow> (Returns False, w2)
              | (Thrown, w2) \<Rightarrow> (Returns False, w2))))"

section \<open>\<^verbatim>\<open>getNotifications\<close>\<close>

subsection \<open>Requests\<close>

definition rpc_get_member_transaction_notifications ::
  "remote \<Rightarrow> string \<Rightarrow> nat \<Rightarrow> world \<Rightarrow> tn_row list reply \<times> world" where
  "rpc_get_member_transaction_notifications r member_id limit w =
     (get_member_transaction_notifications r (db w) member_id limit,
      send Rpc_get_member_transaction_notifications w)"

definition select_transaksi_notifikasi_in ::
  "remote \<Rightarrow> string list \<Rightarrow> nat \<Rightarrow> world \<Rightarrow> tn_row list reply \<times> world" where
  "select_transaksi_notifikasi_in r transactionIds limit w =
     respond r Select_transaksi_notifikasi_in
       (take limit (order_desc tn_created_at
          (filter (transaksi_id_in transactionIds) (transaksi_notifikasi (db w))))) w"

definition select_transaksi_notifikasi_jenis ::
  "remote \<Rightarrow> string \<Rightarrow> nat \<Rightarrow> world \<Rightarrow> tn_row list reply \<times> world" where
  "select_transaksi_notifikasi_jenis r jenis limit w =
     respond r Select_transaksi_notifikasi_jenis
       (take limit (order_desc tn_created_at
          (filter (\<lambda>n. tn_jenis n = Some jenis) (transaksi_notifikasi (db w))))) w"

definition rpc_get_member_global_notifications ::
  "remote \<Rightarrow> string \<Rightarrow> world \<Rightarrow> gf_row list reply \<times> world" where
  "rpc_get_member_global_notifications r member_id w =
     (get_member_global_notifications r (db w) member_id,
      send Rpc_get_member_global_notifications w)"

text \<open>A global notification with the read-status rows joined to it.\<close>

record gj_row =
  gj_notification :: gn_row
  gj_global_notifikasi_read :: "gr_row list"

text \<open>
  \<^verbatim>\<open>global_notifikasi_read!inner(...)\<close> filtered to the member: the
  notifications that have a read-status row of the member, each with those rows.
\<close>

definition select_global_notifikasi_inner ::
  "remote \<Rightarrow> string \<Rightarrow> world \<Rightarrow> gj_row list reply \<times> world" where
  "select_global_notifikasi_inner r anggotaId w =
     respond r Select_global_notifikasi_inner
       (filter (\<lambda>j. gj_global_notifikasi_read j \<noteq> [])
          (map (\<lambda>g. \<lparr>gj_notification = g,
                      gj_global_notifikasi_read =
                        pair_rows (gn_id g) anggotaId (global_notifikasi_read (db w))\<rparr>)
             (order_desc gn_created_at (global_notifikasi (db w))))) w"

definition select_global_notifikasi :: "remote \<Rightarrow> world \<Rightarrow> gn_row list reply \<times> world" where
  "select_global_notifikasi r w =
     respond r Select_global_notifikasi
       (order_desc gn_created_at (global_notifikasi (db w))) w"

definition select_global_notifikasi_read_member ::
  "remote \<Rightarrow> string \<Rightarrow> world \<Rightarrow> gr_row list reply \<times> world" where
  "select_global_notifikasi_read_member r anggotaId w =
     respond r Select_global_notifikasi_read_member
       (filter (\<lambda>s. gr_anggota_id s = anggotaId) (global_notifikasi_read (db w))) w"

subsection \<open>The three fetches\<close>

text \<open>
  The member's transaction notifications: the remote procedure, and on its
  error the member's transactions and then their notifications. \<^verbatim>\<open>Thrown\<close>
  is an exception that reaches the handler of \<^verbatim>\<open>getNotifications\<close>.
\<close>

definition fetch_transactionNotifications ::
  "remote \<Rightarrow> string \<Rightarrow> nat \<Rightarrow> world \<Rightarrow> tn_row list outcome \<times> world" where
  "fetch_transactionNotifications r anggotaId limit w =
     (case rpc_get_member_transaction_notifications r anggotaId limit w of
        (Throws, w1) \<Rightarrow> (Thrown, w1)
      | (Data rpcNotifications, w1) \<Rightarrow> (Returns rpcNotifications, w1)
      | (Null, w1) \<Rightarrow> (Returns [], w1)
      | (Error tnError, w1) \<Rightarrow>
          (case select_transaksi r anggotaId w1 of
             (Throws, w2) \<Rightarrow> (Thrown, w2)
           | (Error mtError, w2) \<Rightarrow> (Returns [], w2)
           | (Null, w2) \<Rightarrow> (Returns [], w2)
           | (Data memberTransactions, w2) \<Rightarrow>
               if memberTransactions \<noteq> [] then
                 (case select_transaksi_notifikasi_in r (map t_id memberTransactions) limit w2 of
                    (Throws, w3) \<Rightarrow> (Thrown, w3)
                  | (Error tNotifError, w3) \<Rightarrow> (Returns [], w3)
                  | (Null, w3) \<Rightarrow> (Returns [], w3)
                  | (Data tNotifications, w3) \<Rightarrow> (Returns tNotifications, w3))
               else (Returns [], w2)))"

text \<open>
  The \<^verbatim>\<open>jatuh_tempo\<close> notifications: one query on the whole table, in a
  handler of its own.
\<close>

definition fetch_jatuhTempoNotifications ::
  "remote \<Rightarrow> nat \<Rightarrow> world \<Rightarrow> tn_row list \<times> world" where
  "fetch_jatuhTempoNotifications r limit w =
     (case select_transaksi_notifikasi_jenis r ''jatuh_tempo'' limit w of
        (Data jatuhTempoData, w1) \<Rightarrow> (jatuhTempoData, w1)
      | (Null, w1) \<Rightarrow> ([], w1)
      | (Error jatuhTempoError, w1) \<Rightarrow> ([], w1)
      | (Throws, w1) \<Rightarrow> ([], w1))"

type_synonym readStatusMap = "string \<rightharpoonup> bool option"

text \<open>
  The global notifications and the \<^verbatim>\<open>readStatusMap\<close>: the remote procedure,
  then the join, then two separate queries. An error of the first two is
  thrown and caught like an exception; the last stage is not in a handler of
  its own.
\<close>

definition fetch_globalNotifications ::
  "remote \<Rightarrow> string \<Rightarrow> world \<Rightarrow> (gn_row list \<times> readStatusMap) outcome \<times> world" where
  "fetch_globalNotifications r anggotaId w =
     (case rpc_get_member_global_notifications r anggotaId w of
        (Data functionResult, w1) \<Rightarrow>
          if functionResult \<noteq> [] then
            (Returns (map gf_notification functionResult,
               fold (\<lambda>item m. m(gn_id (gf_notification item) \<mapsto> gf_is_read item))
                 functionResult Map.empty), w1)
          else (Returns ([], Map.empty), w1)
      | (Null, w1) \<Rightarrow> (Returns ([], Map.empty), w1)
      | (_, w1) \<Rightarrow>
          (case select_global_notifikasi_inner r anggotaId w1 of
             (Data globalWithReadStatus, w2) \<Rightarrow>
               (Returns (map gj_notification globalWithReadStatus,
                  fold (\<lambda>item m.
                          case gj_global_notifikasi_read item of
                            [] \<Rightarrow> m
                          | s # _ \<Rightarrow> m(gn_id (gj_notification item) \<mapsto> Some (gr_is_read s)))
                    globalWithReadStatus Map.empty), w2)
           | (Null, w2) \<Rightarrow> (Returns ([], Map.empty), w2)
           | (_, w2) \<Rightarrow>
               (case select_global_notifikasi r w2 of
                  (Throws, w3) \<Rightarrow> (Thrown, w3)
                | (gnAnswer, w3) \<Rightarrow>
                    (let globalNotifications =
                           (case gnAnswer of Data globalNotificationsData \<Rightarrow> globalNotificationsData
                            | _ \<Rightarrow> [])
                     in case select_global_notifikasi_read_member r anggotaId w3 of
                          (Throws, w4) \<Rightarrow> (Thrown, w4)
                        | (Data readStatusData, w4) \<Rightarrow>
                            (Returns (globalNotifications,
                               fold (\<lambda>item m. m(gr_global_notifikasi_id item \<mapsto> Some (gr_is_read item)))
                                 readStatusData Map.empty), w4)
                        | (_, w4) \<Rightarrow> (Returns (globalNotifications, Map.empty), w4)))))"

subsection \<open>Formatting, sorting, caching\<close>

text \<open>\<^verbatim>\<open>item.data || {}\<close>, \<^verbatim>\<open>item.updated_at || item.created_at\<close>, \<^verbatim>\<open>v ?? false\<close>\<close>

definition or_empty :: "payload option \<Rightarrow> payload" where
  "or_empty d = (case d of None \<Rightarrow> [] | Some x \<Rightarrow> x)"

definition or_created_at :: "date option \<Rightarrow> date \<Rightarrow> date" where
  "or_created_at u c = (case u of None \<Rightarrow> c | Some x \<Rightarrow> x)"

definition or_false :: "bool option \<Rightarrow> bool" where
  "or_false b = (case b of None \<Rightarrow> False | Some x \<Rightarrow> x)"

definition formattedTransactionNotifications :: "string \<Rightarrow> tn_row list \<Rightarrow> notification list" where
  "formattedTransactionNotifications anggotaId transactionNotifications =
     map (\<lambda>item.
       \<lparr>n_id = tn_id item, n_judul = tn_judul item, n_pesan = tn_pesan item,
        n_jenis = tn_jenis item, n_data = or_empty (tn_data item),
        n_is_read = or_false (tn_is_read item),
        n_created_at = tn_created_at item,
        n_updated_at = or_created_at (tn_updated_at item) (tn_created_at item),
        n_source = Transaction, n_transaksi_id = tn_transaksi_id item,
        n_global_notifikasi_id = None, n_anggota_id = anggotaId\<rparr>) transactionNotifications"

definition formattedJatuhTempoNotifications :: "string \<Rightarrow> tn_row list \<Rightarrow> notification list" where
  "formattedJatuhTempoNotifications anggotaId jatuhTempoNotifications =
     map (\<lambda>item.
       \<lparr>n_id = tn_id item, n_judul = tn_judul item, n_pesan = tn_pesan item,
        n_jenis = tn_jenis item, n_data = or_empty (tn_data item),
        n_is_read = or_false (tn_is_read item),
        n_created_at = tn_created_at item,
        n_updated_at = or_created_at (tn_updated_at item) (tn_created_at item),
        n_source = Transaction, n_transaksi_id = tn_transaksi_id item,
        n_global_notifikasi_id = None, n_anggota_id = anggotaId\<rparr>) jatuhTempoNotifications"

definition readStatus_get :: "readStatusMap \<Rightarrow> string \<Rightarrow> bool" where
  "readStatus_get readStatusMap k =
     (case readStatusMap k of None \<Rightarrow> False | Some v \<Rightarrow> or_false v)"

definition formattedGlobalNotifications ::
  "string \<Rightarrow> readStatusMap \<Rightarrow> gn_row list \<Rightarrow> notification list" where
  "formattedGlobalNotifications anggotaId readStatusMap globalNotifications =
     map (\<lambda>item.
       \<lparr>n_id = gn_id item, n_judul = gn_judul item, n_pesan = gn_pesan item,
        n_jenis = gn_jenis item, n_data = or_empty (gn_data item),
        n_is_read = readStatus_get readStatusMap (gn_id item),
        n_created_at = gn_created_at item,
        n_updated_at = or_created_at (gn_updated_at item) (gn_created_at item),
        n_source = Global, n_transaksi_id = None,
        n_global_notifikasi_id = Some (gn_id item), n_anggota_id = anggotaId\<rparr>) globalNotifications"

text \<open>
  \<^verbatim>\<open>new Date(b.created_at).getTime() - new Date(a.created_at).getTime()\<close>;
  \<open>None\<close> is \<^verbatim>\<open>NaN\<close>.
\<close>

definition compare_created_at :: "notification \<Rightarrow> notification \<Rightarrow> int option" where
  "compare_created_at a b =
     (case getTime (n_created_at b) of
        None \<Rightarrow> None
      | Some tb \<Rightarrow> (case getTime (n_created_at a) of None \<Rightarrow> None | Some ta \<Rightarrow> Some (tb - ta)))"

text \<open>
  \<^verbatim>\<open>Array.prototype.sort\<close> with a comparator: stable, and a comparator value
  \<^verbatim>\<open>NaN\<close> counts as \<open>0\<close>. \<open>a\<close> stays before \<open>b\<close> unless the comparator is
  positive.
\<close>

definition js_sort :: "('a \<Rightarrow> 'a \<Rightarrow> int option) \<Rightarrow> 'a list \<Rightarrow> 'a list" where
  "js_sort comparefn xs =
     sort_by (\<lambda>a b. case comparefn a b of None \<Rightarrow> True | Some v \<Rightarrow> v \<le> 0) xs"

text \<open>The decimal digits of the limit, for the template string of the key.\<close>

definition digit_char :: "nat \<Rightarrow> char" where
  "digit_char d = char_of (48 + d)"

fun show_nat :: "nat \<Rightarrow> string" where
  "show_nat n = (if n < 10 then [digit_char n] else show_nat (n div 10) @ [digit_char (n mod 10)])"

declare show_nat.simps [simp del]

definition cacheKey :: "string \<Rightarrow> nat \<Rightarrow> string" where
  "cacheKey anggotaId limit = ''notifications-'' @ anggotaId @ ''-'' @ show_nat limit"

definition getNotifications ::
  "remote \<Rightarrow> string \<Rightarrow> nat \<Rightarrow> bool \<Rightarrow> world \<Rightarrow> notification list outcome \<times> world" where
  "getNotifications r anggotaId limit forceRefresh w =
     (case (if forceRefresh then None else notificationCache w (cacheKey anggotaId limit)) of
        Some cached \<Rightarrow> (Returns cached, w)
      | None \<Rightarrow>
          (case fetch_transactionNotifications r anggotaId limit w of
             (Thrown, w1) \<Rightarrow> (Returns [], w1)
           | (Returns transactionNotifications, w1) \<Rightarrow>
               (case fetch_jatuhTempoNotifications r limit w1 of
                  (jatuhTempoNotifications, w2) \<Rightarrow>
                    (case fetch_globalNotifications r anggotaId w2 of
                       (Thrown, w3) \<Rightarrow> (Returns [], w3)
                     | (Returns (globalNotifications, readStatusMap), w3) \<Rightarrow>
                         (let allNotifications =
                                take limit (js_sort compare_created_at
                                  (formattedTransactionNotifications anggotaId transactionNotifications @
                                   formattedJatuhTempoNotifications anggotaId jatuhTempoNotifications @
                                   formattedGlobalNotifications anggotaId readStatusMap globalNotifications))
                          in (Returns allNotifications,
                              w3\<lparr>notificationCache :=
                                   (notificationCache w3)(cacheKey anggotaId limit \<mapsto> allNotifications)\<rparr>))))))"

section \<open>\<^verbatim>\<open>getNotificationsByType\<close>\<close>

text \<open>
  \<^verbatim>\<open>global_notifikasi_read!left(...)\<close>: every notification of the type, each
  with all its read-status rows.
\<close>

definition select_global_notifikasi_left ::
  "remote \<Rightarrow> string \<Rightarrow> nat \<Rightarrow> world \<Rightarrow> gj_row list reply \<times> world" where
  "select_global_notifikasi_left r jenis limit w =
     respond r Select_global_notifikasi_left
       (map (\<lambda>g. \<lparr>gj_notification = g,
                   gj_global_notifikasi_read =
                     filter (\<lambda>s. gr_global_notifikasi_id s = gn_id g)
                       (global_notifikasi_read (db w))\<rparr>)
          (take limit (order_desc gn_created_at
             (filter (\<lambda>g. gn_jenis g = Some jenis) (global_notifikasi (db w)))))) w"

definition formattedFunctionRows :: "string \<Rightarrow> gf_row list \<Rightarrow> notification list" where
  "formattedFunctionRows anggotaId filteredData =
     map (\<lambda>item.
       \<lparr>n_id = gn_id (gf_notification item), n_judul = gn_judul (gf_notification item),
        n_pesan = gn_pesan (gf_notification item), n_jenis = gn_jenis (gf_notification item),
        n_data = or_empty (gn_data (gf_notification item)),
        n_is_read = or_false (gf_is_read item),
        n_created_at = gn_created_at (gf_notification item),
        n_updated_at = or_created_at (gn_updated_at (gf_notification item))
                         (gn_created_at (gf_notification item)),
        n_source = Global, n_transaksi_id = None,
        n_global_notifikasi_id = Some (gn_id (gf_notification item)),
        n_anggota_id = anggotaId\<rparr>) filteredData"

definition formattedJoinedRows :: "string \<Rightarrow> gj_row list \<Rightarrow> notification list" where
  "formattedJoinedRows anggotaId rows =
     map (\<lambda>item.
       (let readStatus = find (\<lambda>s. gr_anggota_id s = anggotaId) (gj_global_notifikasi_read item)
        in \<lparr>n_id = gn_id (gj_notification item), n_judul = gn_judul (gj_notification item),
            n_pesan = gn_pesan (gj_notification item), n_jenis = gn_jenis (gj_notification item),
            n_data = or_empty (gn_data (gj_notification item)),
            n_is_read = (case readStatus of None \<Rightarrow> False | Some s \<Rightarrow> gr_is_read s),
            n_created_at = gn_created_at (gj_notification item),
            n_updated_at = or_created_at (gn_updated_at (gj_notification item))
                             (gn_created_at (gj_notification item)),
            n_source = Global, n_transaksi_id = None,
            n_global_notifikasi_id = Some (gn_id (gj_notification item)),
            n_anggota_id = anggotaId\<rparr>)) rows"

definition isGlobalType :: "string \<Rightarrow> bool" where
  "isGlobalType type = (type \<in> set [''pengumuman'', ''sistem''])"

text \<open>The direct query that both files use for a global type.\<close>

definition byType_global_query ::
  "remote \<Rightarrow> string \<Rightarrow> string \<Rightarrow> nat \<Rightarrow> world \<Rightarrow> notification list outcome \<times> world" where
  "byType_global_query r anggotaId type limit w =
     (case select_global_notifikasi_left r type limit w of
        (Throws, w1) \<Rightarrow> (Thrown, w1)
      | (Error e, w1) \<Rightarrow> (Returns [], w1)
      | (Null, w1) \<Rightarrow> (Returns [], w1)
      | (Data rows, w1) \<Rightarrow> (Returns (formattedJoinedRows anggotaId rows), w1))"

definition byType_transaction_query ::
  "remote \<Rightarrow> string \<Rightarrow> string \<Rightarrow> nat \<Rightarrow> world \<Rightarrow> notification list outcome \<times> world" where
  "byType_transaction_query r anggotaId type limit w =
     (case select_transaksi_notifikasi_jenis r type limit w of
        (Throws, w1) \<Rightarrow> (Thrown, w1)
      | (Error e, w1) \<Rightarrow> (Returns [], w1)
      | (Null, w1) \<Rightarrow> (Returns [], w1)
      | (Data rows, w1) \<Rightarrow> (Returns (formattedTransactionNotifications anggotaId rows), w1))"

definition getNotificationsByType ::
  "remote \<Rightarrow> string \<Rightarrow> string \<Rightarrow> nat \<Rightarrow> world \<Rightarrow> notification list outcome \<times> world" where
  "getNotificationsByType r anggotaId type limit w =
     (case
        (if isGlobalType type then
           (case rpc_get_member_global_notifications r anggotaId w of
              (Data rows, w1) \<Rightarrow>
                (Returns (formattedFunctionRows anggotaId
                   (take limit (filter (\<lambda>item. gn_jenis (gf_notification item) = Some type) rows))), w1)
            | (Null, w1) \<Rightarrow> (Returns [], w1)
            | (_, w1) \<Rightarrow> byType_global_query r anggotaId type limit w1)
         else byType_transaction_query r anggotaId type limit w) of
        (Thrown, w') \<Rightarrow> (Returns [], w')
      | (Returns result, w') \<Rightarrow> (Returns result, w'))"

section \<open>The functions of \<^verbatim>\<open>part_000\<close> that differ\<close>

subsection \<open>\<^verbatim>\<open>getNotifications\<close>\<close>

text \<open>\<^verbatim>\<open>item.jenis || 'pengumuman'\<close>\<close>

definition or_pengumuman :: "string option \<Rightarrow> string option" where
  "or_pengumuman j = (case j of None \<Rightarrow> Some ''pengumuman''
                      | Some s \<Rightarrow> if s = [] then Some ''pengumuman'' else Some s)"

definition formattedGlobalNotifications0 ::
  "string \<Rightarrow> readStatusMap \<Rightarrow> gn_row list \<Rightarrow> notification list" where
  "formattedGlobalNotifications0 anggotaId readStatusMap globalNotifications =
     map (\<lambda>item.
       \<lparr>n_id = gn_id item, n_judul = gn_judul item, n_pesan = gn_pesan item,
        n_jenis = or_pengumuman (gn_jenis item), n_data = or_empty (gn_data item),
        n_is_read = readStatus_get readStatusMap (gn_id item),
        n_created_at = gn_created_at item,
        n_updated_at = or_created_at (gn_updated_at item) (gn_created_at item),
        n_source = Global, n_transaksi_id = None,
        n_global_notifikasi_id = Some (gn_id item), n_anggota_id = anggotaId\<rparr>) globalNotifications"

definition fetch_globalNotifications0 ::
  "remote \<Rightarrow> string \<Rightarrow> world \<Rightarrow> (gn_row list \<times> readStatusMap) outcome \<times> world" where
  "fetch_globalNotifications0 r anggotaId w =
     (case select_global_notifikasi r w of
        (Throws, w1) \<Rightarrow> (Thrown, w1)
      | (gnAnswer, w1) \<Rightarrow>
          (let globalNotifications =
                 (case gnAnswer of Data rows \<Rightarrow> rows | _ \<Rightarrow> [])
           in case select_global_notifikasi_read_member r anggotaId w1 of
                (Throws, w2) \<Rightarrow> (Thrown, w2)
              | (Data readStatusData, w2) \<Rightarrow>
                  (Returns (globalNotifications,
                     fold (\<lambda>item m. m(gr_global_notifikasi_id item \<mapsto> Some (gr_is_read item)))
                       readStatusData Map.empty), w2)
              | (_, w2) \<Rightarrow> (Returns (globalNotifications, Map.empty), w2)))"

definition getNotifications0 ::
  "remote \<Rightarrow> string \<Rightarrow> nat \<Rightarrow> bool \<Rightarrow> world \<Rightarrow> notification list outcome \<times> world" where
  "getNotifications0 r anggotaId limit forceRefresh w =
     (case (if forceRefresh then None else notificationCache w (cacheKey anggotaId limit)) of
        Some cached \<Rightarrow> (Returns cached, w)
      | None \<Rightarrow>
          (case fetch_transactionNotifications r anggotaId limit w of
             (Thrown, w1) \<Rightarrow> (Returns [], w1)
           | (Returns transactionNotifications, w1) \<Rightarrow>
               (case fetch_globalNotifications0 r anggotaId w1 of
                  (Thrown, w2) \<Rightarrow> (Returns [], w2)
                | (Returns (globalNotifications, readStatusMap), w2) \<Rightarrow>
                    (let allNotifications =
                           take limit (js_sort compare_created_at
                             (formattedTransactionNotifications anggotaId transactionNotifications @
                              formattedGlobalNotifications0 anggotaId readStatusMap globalNotifications))
                     in (Returns allNotifications,
                         w2\<lparr>notificationCache :=
                              (notificationCache w2)(cacheKey anggotaId limit \<mapsto> allNotifications)\<rparr>)))))"

subsection \<open>\<^verbatim>\<open>getNotificationsByType\<close>\<close>

definition getNotificationsByType0 ::
  "remote \<Rightarrow> string \<Rightarrow> string \<Rightarrow> nat \<Rightarrow> world \<Rightarrow> notification list outcome \<times> world" where
  "getNotificationsByType0 r anggotaId type limit w =
     (case
        (if isGlobalType type then byType_global_query r anggotaId type limit w
         else byType_transaction_query r anggotaId type limit w) of
        (Thrown, w') \<Rightarrow> (Returns [], w')
      | (Returns result, w') \<Rightarrow> (Returns result, w'))"

subsection \<open>\<^verbatim>\<open>markAsRead\<close> and \<^verbatim>\<open>markAsReadDirectly\<close>\<close>

definition rpc_mark_notification_as_read0 ::
  "remote \<Rightarrow> string \<Rightarrow> source option \<Rightarrow> string \<Rightarrow> world \<Rightarrow> bool reply \<times> world" where
  "rpc_mark_notification_as_read0 r p_notification_id p_source p_anggota_id w =
     (case mark_notification_as_read0 r (db w) p_notification_id p_source p_anggota_id of
        (answer, d) \<Rightarrow> (answer, (send Rpc_mark_notification_as_read w)\<lparr>db := d\<rparr>))"

definition rpc_get_member_notifications ::
  "remote \<Rightarrow> string \<Rightarrow> nat \<Rightarrow> world \<Rightarrow> mn_row list reply \<times> world" where
  "rpc_get_member_notifications r p_anggota_id p_limit w =
     (get_member_notifications r (db w) p_anggota_id p_limit,
      send Rpc_get_member_notifications w)"

text \<open>The existence checks of \<^verbatim>\<open>part_000\<close> use \<^verbatim>\<open>.limit(1)\<close>, not \<^verbatim>\<open>.single()\<close>.\<close>

definition select_transaksi_notifikasi_id0 ::
  "remote \<Rightarrow> string \<Rightarrow> world \<Rightarrow> tn_row list reply \<times> world" where
  "select_transaksi_notifikasi_id0 r notificationId w =
     respond r Select_transaksi_notifikasi_id
       (take 1 (filter (\<lambda>n. tn_id n = notificationId) (transaksi_notifikasi (db w)))) w"

definition select_global_notifikasi_id0 ::
  "remote \<Rightarrow> string \<Rightarrow> world \<Rightarrow> gn_row list reply \<times> world" where
  "select_global_notifikasi_id0 r notificationId w =
     respond r Select_global_notifikasi_id
       (take 1 (filter (\<lambda>g. gn_id g = notificationId) (global_notifikasi (db w)))) w"

definition select_global_notifikasi_read_pair0 ::
  "remote \<Rightarrow> string \<Rightarrow> string \<Rightarrow> world \<Rightarrow> gr_row list reply \<times> world" where
  "select_global_notifikasi_read_pair0 r notificationId anggotaId w =
     respond r Select_global_notifikasi_read_pair
       (take 1 (pair_rows notificationId anggotaId (global_notifikasi_read (db w)))) w"

text \<open>
  The first block of \<^verbatim>\<open>markAsReadDirectly\<close>: the source that the remote
  procedure \<^verbatim>\<open>get_member_notifications\<close> suggests, in a handler of its own.
\<close>

definition detect_source ::
  "remote \<Rightarrow> string \<Rightarrow> source option \<Rightarrow> string option \<Rightarrow> world \<Rightarrow> source option \<times> world" where
  "detect_source r notificationId source anggotaId w =
     (if truthy anggotaId then
        (case rpc_get_member_notifications r (the anggotaId) 50 w of
           (Data rpcResult, w1) \<Rightarrow>
             (case find (\<lambda>n. mn_id n = notificationId) rpcResult of
                Some foundNotification \<Rightarrow>
                  (if truthy (mn_transaksi_id foundNotification) then Some Transaction
                   else Some Global, w1)
              | None \<Rightarrow> (source, w1))
         | (_, w1) \<Rightarrow> (source, w1))
      else (source, w))"

text \<open>
  The block for the global table. \<open>None\<close>: the notification was not found
  there, and the function goes on to its last line.
\<close>

definition markAsReadDirectly0_global ::
  "remote \<Rightarrow> string \<Rightarrow> string option \<Rightarrow> world \<Rightarrow> bool option outcome \<times> world" where
  "markAsReadDirectly0_global r notificationId anggotaId w =
     (case select_global_notifikasi_id0 r notificationId w of
        (Throws, w1) \<Rightarrow> (Thrown, w1)
      | (Data checkGlobalData, w1) \<Rightarrow>
          if checkGlobalData \<noteq> [] then
            (if truthy anggotaId then
               (case select_global_notifikasi_read_pair0 r notificationId (the anggotaId) w1 of
                  (Throws, w2) \<Rightarrow> (Thrown, w2)
                | (readAnswer, w2) \<Rightarrow>
                    if (case readAnswer of Data readStatusData \<Rightarrow> readStatusData \<noteq> [] | _ \<Rightarrow> False)
                    then
                      (case update_global_notifikasi_read_pair r notificationId (the anggotaId) w2 of
                         (Throws, w3) \<Rightarrow> (Thrown, w3)
                       | (Error updateError, w3) \<Rightarrow> (Returns (Some False), w3)
                       | (_, w3) \<Rightarrow> (Returns (Some True), clearCache w3))
                    else
                      (case insert_global_notifikasi_read r notificationId (the anggotaId) w2 of
                         (Throws, w3) \<Rightarrow> (Thrown, w3)
                       | (Error insertError, w3) \<Rightarrow> (Returns (Some False), w3)
                       | (_, w3) \<Rightarrow> (Returns (Some True), clearCache w3)))
             else (Returns (Some False), w1))
          else (Returns None, w1)
      | (_, w1) \<Rightarrow> (Returns None, w1))"

text \<open>The block for the transaction table, likewise.\<close>

definition markAsReadDirectly0_transaction ::
  "remote \<Rightarrow> string \<Rightarrow> world \<Rightarrow> bool option outcome \<times> world" where
  "markAsReadDirectly0_transaction r notificationId w =
     (case select_transaksi_notifikasi_id0 r notificationId w of
        (Throws, w1) \<Rightarrow> (Thrown, w1)
      | (Data checkTransData, w1) \<Rightarrow>
          if checkTransData \<noteq> [] then
            (case update_transaksi_notifikasi_id r notificationId w1 of
               (Throws, w2) \<Rightarrow> (Thrown, w2)
             | (Error updateError, w2) \<Rightarrow> (Returns (Some False), w2)
             | (_, w2) \<Rightarrow> (Returns (Some True), clearCache w2))
          else (Returns None, w1)
      | (_, w1) \<Rightarrow> (Returns None, w1))"

definition markAsReadDirectly0 ::
  "remote \<Rightarrow> string \<Rightarrow> source option \<Rightarrow> string option \<Rightarrow> world \<Rightarrow> bool outcome \<times> world" where
  "markAsReadDirectly0 r notificationId source0 anggotaId w =
     (case detect_source r notificationId source0 anggotaId w of
        (source, w1) \<Rightarrow>
          (case (if source = None \<or> source = Some Transaction
                 then markAsReadDirectly0_transaction r notificationId w1
                 else (Returns None, w1)) of
             (Thrown, w2) \<Rightarrow> (Returns False, w2)
           | (Returns (Some result), w2) \<Rightarrow> (Returns result, w2)
           | (Returns None, w2) \<Rightarrow>
               (case (if source = None \<or> source = Some Global
                      then markAsReadDirectly0_global r notificationId anggotaId w2
                      else (Returns None, w2)) of
                  (Thrown, w3) \<Rightarrow> (Returns False, w3)
                | (Returns (Some result), w3) \<Rightarrow> (Returns result, w3)
                | (Returns None, w3) \<Rightarrow> (Returns False, w3))))"

definition markAsRead0 ::
  "remote \<Rightarrow> string \<Rightarrow> source option \<Rightarrow> string option \<Rightarrow> world \<Rightarrow> bool outcome \<times> world" where
  "markAsRead0 r notificationId source anggotaId w =
     (if \<not> truthy anggotaId then (Returns False, w)
      else
        (case rpc_mark_notification_as_read0 r notificationId source (the anggotaId) w of
           (Throws, w1) \<Rightarrow> markAsReadDirectly0 r notificationId source anggotaId w1
         | (Error e, w1) \<Rightarrow> markAsReadDirectly0 r notificationId source anggotaId w1
         | (Data True, w1) \<Rightarrow> (Returns True, clearCache w1)
         | (_, w1) \<Rightarrow> (Returns False, w1)))"

section \<open>Example worlds\<close>

text \<open>
  Two members with one transaction each, a \<^verbatim>\<open>jatuh_tempo\<close> notification on
  either transaction, and one global notification without a category that
  member \<open>M1\<close> has not read. The remote procedures are not deployed: each
  answers with an error. Every table request goes through.
\<close>

definition example_remote :: remote where
  "example_remote =
     \<lparr>fault = (\<lambda>q. No_Fault),
      get_member_transaction_notifications = (\<lambda>d a l. Error Other_Error),
      get_member_global_notifications = (\<lambda>d a. Error Other_Error),
      mark_notification_as_read = (\<lambda>d n m s. (Error Other_Error, d)),
      mark_notification_as_read0 = (\<lambda>d n s m. (Error Other_Error, d)),
      get_member_notifications = (\<lambda>d a l. Error Other_Error),
      now = Instant 5000\<rparr>"

definition example_db :: database where
  "example_db =
     \<lparr>transaksi =
        [\<lparr>t_id = ''T1'', t_anggota_id = ''M1''\<rparr>, \<lparr>t_id = ''T2'', t_anggota_id = ''M2''\<rparr>],
      transaksi_notifikasi =
        [\<lparr>tn_id = ''N1'', tn_judul = ''Jatuh tempo'', tn_pesan = ''Angsuran 1'',
          tn_jenis = Some ''jatuh_tempo'', tn_data = None, tn_is_read = Some False,
          tn_created_at = Instant 3000, tn_updated_at = None, tn_transaksi_id = Some ''T1''\<rparr>,
         \<lparr>tn_id = ''N2'', tn_judul = ''Jatuh tempo'', tn_pesan = ''Angsuran 2'',
          tn_jenis = Some ''jatuh_tempo'', tn_data = None, tn_is_read = Some False,
          tn_created_at = Instant 2000, tn_updated_at = None, tn_transaksi_id = Some ''T2''\<rparr>],
      global_notifikasi =
        [\<lparr>gn_id = ''G1'', gn_judul = ''Rapat'', gn_pesan = ''Rapat anggota'',
          gn_jenis = None, gn_data = None, gn_created_at = Instant 1000,
          gn_updated_at = None\<rparr>],
      global_notifikasi_read =
        [\<lparr>gr_global_notifikasi_id = ''G1'', gr_anggota_id = ''M1'', gr_is_read = False,
          gr_created_at = Instant 1000, gr_updated_at = Instant 1000\<rparr>]\<rparr>"

definition example_world :: world where
  "example_world = \<lparr>db = example_db, notificationCache = Map.empty, requests = []\<rparr>"

text \<open>The feed of member \<open>M1\<close> in the example world, as \<^verbatim>\<open>part_001\<close> builds it.\<close>

definition example_feed :: "notification list" where
  "example_feed =
     [\<lparr>n_id = ''N1'', n_judul = ''Jatuh tempo'', n_pesan = ''Angsuran 1'',
       n_jenis = Some ''jatuh_tempo'', n_data = [], n_is_read = False,
       n_created_at = Instant 3000, n_updated_at = Instant 3000, n_source = Transaction,
       n_transaksi_id = Some ''T1'', n_global_notifikasi_id = None, n_anggota_id = ''M1''\<rparr>,
      \<lparr>n_id = ''N1'', n_judul = ''Jatuh tempo'', n_pesan = ''Angsuran 1'',
       n_jenis = Some ''jatuh_tempo'', n_data = [], n_is_read = False,
       n_created_at = Instant 3000, n_updated_at = Instant 3000, n_source = Transaction,
       n_transaksi_id = Some ''T1'', n_global_notifikasi_id = None, n_anggota_id = ''M1''\<rparr>,
      \<lparr>n_id = ''N2'', n_judul = ''Jatuh tempo'', n_pesan = ''Angsuran 2'',
       n_jenis = Some ''jatuh_tempo'', n_data = [], n_is_read = False,
       n_created_at = Instant 2000, n_updated_at = Instant 2000, n_source = Transaction,
       n_transaksi_id = Some ''T2'', n_global_notifikasi_id = None, n_anggota_id = ''M1''\<rparr>,
      \<lparr>n_id = ''G1'', n_judul = ''Rapat'', n_pesan = ''Rapat anggota'',
       n_jenis = None, n_data = [], n_is_read = False,
       n_created_at = Instant 1000, n_updated_at = Instant 1000, n_source = Global,
       n_transaksi_id = None, n_global_notifikasi_id = Some ''G1'', n_anggota_id = ''M1''\<rparr>]"

text \<open>
  A remote whose procedure \<^verbatim>\<open>get_member_global_notifications\<close> answers with
  three notifications, the second of them with a \<^verbatim>\<open>created_at\<close> that is no date.
\<close>

definition undated_remote :: remote where
  "undated_remote =
     example_remote\<lparr>get_member_global_notifications :=
       (\<lambda>d a.
          Data [\<lparr>gf_notification =
                   \<lparr>gn_id = ''P1'', gn_judul = ''Info'', gn_pesan = ''Satu'', gn_jenis = Some ''sistem'',
                    gn_data = None, gn_created_at = Instant 1000, gn_updated_at = None\<rparr>,
                  gf_is_read = Some False\<rparr>,
                \<lparr>gf_notification =
                   \<lparr>gn_id = ''P2'', gn_judul = ''Info'', gn_pesan = ''Dua'', gn_jenis = Some ''sistem'',
                    gn_data = None, gn_created_at = Invalid_Date, gn_updated_at = None\<rparr>,
                  gf_is_read = Some False\<rparr>,
                \<lparr>gf_notification =
                   \<lparr>gn_id = ''P3'', gn_judul = ''Info'', gn_pesan = ''Tiga'', gn_jenis = Some ''sistem'',
                    gn_data = None, gn_created_at = Instant 2000, gn_updated_at = None\<rparr>,
                  gf_is_read = Some False\<rparr>])\<rparr>"

section \<open>Vocabulary of the theorems\<close>

text \<open>
  \<open>grows_by w qs\<close> is \<open>w\<close> after the requests \<open>qs\<close>; \<open>sent w w'\<close> are the
  requests sent between \<open>w\<close> and \<open>w'\<close>; \<open>pair_of\<close> is the (notification,
  member) pair of a read-status row.
\<close>

definition grows_by :: "world \<Rightarrow> request list \<Rightarrow> world" where
  "grows_by w qs = w\<lparr>requests := requests w @ qs\<rparr>"

definition sent :: "world \<Rightarrow> world \<Rightarrow> request list" where
  "sent w w' = drop (length (requests w)) (requests w')"

definition pair_of :: "gr_row \<Rightarrow> string \<times> string" where
  "pair_of s = (gr_global_notifikasi_id s, gr_anggota_id s)"

text \<open>
  The rows that the backend can deliver to one call of \<^verbatim>\<open>getNotifications\<close>:
  the rows of the table, and the rows that the remote procedure answers with.
\<close>

definition delivered_transaction_rows :: "remote \<Rightarrow> database \<Rightarrow> string \<Rightarrow> nat \<Rightarrow> tn_row list" where
  "delivered_transaction_rows r d anggotaId limit =
     transaksi_notifikasi d @
     (case get_member_transaction_notifications r d anggotaId limit of
        Data rows \<Rightarrow> rows | _ \<Rightarrow> [])"

definition delivered_global_rows :: "remote \<Rightarrow> database \<Rightarrow> string \<Rightarrow> gn_row list" where
  "delivered_global_rows r d anggotaId =
     global_notifikasi d @
     (case get_member_global_notifications r d anggotaId of
        Data rows \<Rightarrow> map gf_notification rows | _ \<Rightarrow> [])"

text \<open>
  A \<^verbatim>\<open>created_at\<close> parses when \<^verbatim>\<open>getTime\<close> gives an instant. \<open>instants ns\<close> are
  the instants of a list of notifications, in the order of the list, those
  that do not parse left out. \<open>instant_of\<close> is the instant of a notification
  whose \<^verbatim>\<open>created_at\<close> parses.
\<close>

definition parses :: "date \<Rightarrow> bool" where
  "parses d = (getTime d \<noteq> None)"

definition instants :: "notification list \<Rightarrow> int list" where
  "instants ns = List.map_filter (\<lambda>n. getTime (n_created_at n)) ns"

definition instant_of :: "notification \<Rightarrow> int" where
  "instant_of n = (case getTime (n_created_at n) of None \<Rightarrow> 0 | Some t \<Rightarrow> t)"

definition dates_parse :: "remote \<Rightarrow> database \<Rightarrow> string \<Rightarrow> nat \<Rightarrow> bool" where
  "dates_parse r d anggotaId limit =
     ((\<forall>n \<in> set (delivered_transaction_rows r d anggotaId limit). parses (tn_created_at n)) \<and>
      (\<forall>g \<in> set (delivered_global_rows r d anggotaId). parses (gn_created_at g)))"

text \<open>
  Two properties of the cache: every list stored under the key of a member
  and a limit is within that limit; every stored list is newest first.
\<close>

definition cache_bounded :: "(string \<rightharpoonup> notification list) \<Rightarrow> bool" where
  "cache_bounded c =
     (\<forall>anggotaId limit. case c (cacheKey anggotaId limit) of
        None \<Rightarrow> True | Some ns \<Rightarrow> length ns \<le> limit)"

definition cache_sorted :: "(string \<rightharpoonup> notification list) \<Rightarrow> bool" where
  "cache_sorted c =
     (\<forall>k. case c k of None \<Rightarrow> True | Some ns \<Rightarrow> sorted_wrt (\<ge>) (instants ns))"

text \<open>
  The states that the service can reach: it starts with an empty cache; the
  tables change under it (other clients, the backend's own events); every
  operation of either file takes a reachable state to a reachable state.
\<close>

inductive reachable :: "world \<Rightarrow> bool" where
  start: "reachable \<lparr>db = d, notificationCache = Map.empty, requests = []\<rparr>"
| backend: "reachable w \<Longrightarrow> reachable (w\<lparr>db := d\<rparr>)"
| clearCache: "reachable w \<Longrightarrow> reachable (clearCache w)"
| getNotifications: "reachable w \<Longrightarrow> reachable (snd (getNotifications r a l f w))"
| getNotificationsByType: "reachable w \<Longrightarrow> reachable (snd (getNotificationsByType r a t l w))"
| getUnreadCount: "reachable w \<Longrightarrow> reachable (snd (getUnreadCount r a w))"
| markAsRead: "reachable w \<Longrightarrow> reachable (snd (markAsRead r n s m w))"
| markAsReadDirect: "reachable w \<Longrightarrow> reachable (snd (markAsReadDirect r n s m w))"
| markAsReadDirectly: "reachable w \<Longrightarrow> reachable (snd (markAsReadDirectly r n so a w))"
| markAsReadUsingFunction: "reachable w \<Longrightarrow> reachable (snd (markAsReadUsingFunction r n s a w))"
| markAllAsRead: "reachable w \<Longrightarrow> reachable (snd (markAllAsRead r a w))"
| getNotifications0: "reachable w \<Longrightarrow> reachable (snd (getNotifications0 r a l f w))"
| getNotificationsByType0: "reachable w \<Longrightarrow> reachable (snd (getNotificationsByType0 r a t l w))"
| markAsRead0: "reachable w \<Longrightarrow> reachable (snd (markAsRead0 r n s m w))"
| markAsReadDirectly0: "reachable w \<Longrightarrow> reachable (snd (markAsReadDirectly0 r n s m w))"

text \<open>Reading the decimal digits back, to show that the key determines the limit.\<close>

definition read_nat :: "string \<Rightarrow> nat" where
  "read_nat s = foldl (\<lambda>n c. 10 * n + (of_char c - 48)) 0 s"

text \<open>
  The \<^verbatim>\<open>try\<close> block of \<^verbatim>\<open>getNotifications\<close> in two parts: the fetches, one after
  the other, and the list built from what they returned. \<open>fetch_all0\<close> and
  \<open>merged0\<close> are those of \<^verbatim>\<open>part_000\<close>.
\<close>

definition fetch_all ::
  "remote \<Rightarrow> string \<Rightarrow> nat \<Rightarrow> world \<Rightarrow>
     (tn_row list \<times> tn_row list \<times> gn_row list \<times> readStatusMap) outcome \<times> world" where
  "fetch_all r a l w =
     (case fetch_transactionNotifications r a l w of
        (Thrown, w1) \<Rightarrow> (Thrown, w1)
      | (Returns tx, w1) \<Rightarrow>
          (case fetch_jatuhTempoNotifications r l w1 of
             (jt, w2) \<Rightarrow>
               (case fetch_globalNotifications r a w2 of
                  (Thrown, w3) \<Rightarrow> (Thrown, w3)
                | (Returns (gs, m), w3) \<Rightarrow> (Returns (tx, jt, gs, m), w3))))"

definition merged :: "string \<Rightarrow> nat \<Rightarrow> tn_row list \<Rightarrow> tn_row list \<Rightarrow> gn_row list \<Rightarrow> readStatusMap \<Rightarrow> notification list" where
  "merged a l tx jt gs m =
     take l (js_sort compare_created_at
       (formattedTransactionNotifications a tx @
        formattedJatuhTempoNotifications a jt @
        formattedGlobalNotifications a m gs))"

definition fetch_all0 ::
  "remote \<Rightarrow> string \<Rightarrow> nat \<Rightarrow> world \<Rightarrow>
     (tn_row list \<times> gn_row list \<times> readStatusMap) outcome \<times> world" where
  "fetch_all0 r a l w =
     (case fetch_transactionNotifications r a l w of
        (Thrown, w1) \<Rightarrow> (Thrown, w1)
      | (Returns tx, w1) \<Rightarrow>
          (case fetch_globalNotifications0 r a w1 of
             (Thrown, w2) \<Rightarrow> (Thrown, w2)
           | (Returns (gs, m), w2) \<Rightarrow> (Returns (tx, gs, m), w2)))"

definition merged0 :: "string \<Rightarrow> nat \<Rightarrow> tn_row list \<Rightarrow> gn_row list \<Rightarrow> readStatusMap \<Rightarrow> notification list" where
  "merged0 a l tx gs m =
     take l (js_sort compare_created_at
       (formattedTransactionNotifications a tx @
        formattedGlobalNotifications0 a m gs))"

text \<open>
  A remote none of whose answers to one call of \<^verbatim>\<open>getNotifications\<close> is an
  exception; an answer that is a failure (an error or an exception); a remote
  all of whose answers are failures.
\<close>

definition never_throws :: "remote \<Rightarrow> database \<Rightarrow> string \<Rightarrow> nat \<Rightarrow> bool" where
  "never_throws r d anggotaId limit =
     ((\<forall>q. fault r q \<noteq> Throwing) \<and>
      get_member_transaction_notifications r d anggotaId limit \<noteq> Throws \<and>
      get_member_global_notifications r d anggotaId \<noteq> Throws)"

definition failed :: "'a reply \<Rightarrow> bool" where
  "failed x = (case x of Error e \<Rightarrow> True | Throws \<Rightarrow> True | _ \<Rightarrow> False)"

definition offline :: "remote \<Rightarrow> bool" where
  "offline r =
     ((\<forall>q. fault r q \<noteq> No_Fault) \<and>
      (\<forall>d a l. failed (get_member_transaction_notifications r d a l)) \<and>
      (\<forall>d a. failed (get_member_global_notifications r d a)) \<and>
      (\<forall>d n m s. failed (fst (mark_notification_as_read r d n m s))) \<and>
      (\<forall>d n s m. failed (fst (mark_notification_as_read0 r d n s m))) \<and>
      (\<forall>d a l. failed (get_member_notifications r d a l)))"

text \<open>The list that an operation returned.\<close>

definition returned :: "'a list outcome \<Rightarrow> 'a list" where
  "returned out = (case out of Returns xs \<Rightarrow> xs | Thrown \<Rightarrow> [])"

section \<open>Requests and their effect on the world\<close>

lemma grows_by_grows_by [simp]: "grows_by (grows_by w a) b = grows_by w (a @ b)"
  by (simp add: grows_by_def)

lemma grows_by_fields [simp]:
  "db (grows_by w qs) = db w"
  "notificationCache (grows_by w qs) = notificationCache w"
  "requests (grows_by w qs) = requests w @ qs"
  by (simp_all add: grows_by_def)

lemma grows_by_db_update [simp]: "grows_by (w\<lparr>db := d\<rparr>) qs = (grows_by w qs)\<lparr>db := d\<rparr>"
  by (simp add: grows_by_def)

lemma grows_by_clearCache [simp]: "grows_by (clearCache w) qs = clearCache (grows_by w qs)"
  by (simp add: grows_by_def clearCache_def)

lemma send_grows: "send q w = grows_by w [q]"
  by (simp add: send_def grows_by_def)

lemma sent_grows_by [simp]: "sent w (grows_by w qs) = qs"
  by (simp add: sent_def)

lemma sent_db_update [simp]: "sent w (w'\<lparr>db := d\<rparr>) = sent w w'"
  by (simp add: sent_def)

lemma sent_clearCache [simp]: "sent w (clearCache w') = sent w w'"
  by (simp add: sent_def clearCache_def)

lemma clearCache_fields [simp]:
  "db (clearCache w) = db w"
  "requests (clearCache w) = requests w"
  "notificationCache (clearCache w) = Map.empty"
  by (simp_all add: clearCache_def)

lemma respond_eq:
  "respond r q x w =
     ((case fault r q of No_Fault \<Rightarrow> Data x | Fails \<Rightarrow> Error Other_Error | Throwing \<Rightarrow> Throws),
      grows_by w [q])"
  by (simp add: respond_def send_grows)

lemma respond_single_eq:
  "respond_single r q rows w =
     ((case fault r q of
         No_Fault \<Rightarrow> (case rows of [x] \<Rightarrow> Data x | _ \<Rightarrow> Error PGRST116)
       | Fails \<Rightarrow> Error Other_Error
       | Throwing \<Rightarrow> Throws), grows_by w [q])"
  by (simp add: respond_single_def send_grows)

lemma respond_mutation_eq:
  "respond_mutation r q f w =
     (case fault r q of
        No_Fault \<Rightarrow> (Data (), (grows_by w [q])\<lparr>db := f (db w)\<rparr>)
      | Fails \<Rightarrow> (Error Other_Error, grows_by w [q])
      | Throwing \<Rightarrow> (Throws, grows_by w [q]))"
  by (simp add: respond_mutation_def send_grows split: fault.splits)

section \<open>The unread count\<close>

text \<open>
  C4 (amended). \<^verbatim>\<open>getUnreadCount\<close> returns the number of rows of
  \<^verbatim>\<open>transaksi_notifikasi\<close> with \<^verbatim>\<open>is_read = false\<close>, of any member, plus the
  number of read-status rows of this member with \<^verbatim>\<open>is_read = false\<close>; a
  global notification without a read-status row is not counted. If the first
  count returns an error or throws, the result is 0. If only the second count
  returns an error, the result is the first count; if the second count throws,
  the result is 0.
\<close>

theorem getUnreadCount_cases:
  "fst (getUnreadCount r anggotaId w) = Returns
     (case fault r Count_transaksi_notifikasi_unread of
        No_Fault \<Rightarrow>
          (case fault r Count_global_notifikasi_read_unread of
             No_Fault \<Rightarrow>
               length (filter (\<lambda>n. tn_is_read n = Some False) (transaksi_notifikasi (db w))) +
               length (filter (\<lambda>s. gr_anggota_id s = anggotaId \<and> gr_is_read s = False)
                 (global_notifikasi_read (db w)))
           | Fails \<Rightarrow>
               length (filter (\<lambda>n. tn_is_read n = Some False) (transaksi_notifikasi (db w)))
           | Throwing \<Rightarrow> 0)
      | Fails \<Rightarrow> 0
      | Throwing \<Rightarrow> 0)"
  by (cases "fault r Count_transaksi_notifikasi_unread";
      cases "fault r Count_global_notifikasi_read_unread")
     (simp_all add: getUnreadCount_def count_transaksi_notifikasi_unread_def
        count_global_notifikasi_read_unread_def respond_eq or_zero_def)

text \<open>In the example world: two unread transaction notifications and one unread status row.\<close>

theorem getUnreadCount_cases_witness:
  "fst (getUnreadCount example_remote ''M1'' example_world) = Returns 3"
  using getUnreadCount_cases [of example_remote "''M1''" example_world]
  by (simp add: example_remote_def example_world_def example_db_def)

text \<open>
  The claim as first stated fails when the second count throws: the first
  count is 2, the result is 0.
\<close>

theorem getUnreadCount_throw_counterexample:
  "fault (example_remote\<lparr>fault := (\<lambda>q. if q = Count_global_notifikasi_read_unread then Throwing else No_Fault)\<rparr>)
     Count_transaksi_notifikasi_unread = No_Fault \<and>
   fault (example_remote\<lparr>fault := (\<lambda>q. if q = Count_global_notifikasi_read_unread then Throwing else No_Fault)\<rparr>)
     Count_global_notifikasi_read_unread \<noteq> No_Fault \<and>
   length (filter (\<lambda>n. tn_is_read n = Some False) (transaksi_notifikasi (db example_world))) = 2 \<and>
   fst (getUnreadCount
     (example_remote\<lparr>fault := (\<lambda>q. if q = Count_global_notifikasi_read_unread then Throwing else No_Fault)\<rparr>)
     ''M1'' example_world) = Returns 0"
  by (simp add: getUnreadCount_def count_transaksi_notifikasi_unread_def
        count_global_notifikasi_read_unread_def respond_eq or_zero_def
        example_remote_def example_world_def example_db_def)

section \<open>Marking without a member\<close>

text \<open>
  C7. If \<^verbatim>\<open>anggotaId\<close> is missing (or empty), \<^verbatim>\<open>markAsRead\<close> of either file
  returns false and leaves the world as it is: no request is sent, no table
  and no cache entry changes.
\<close>

theorem markAsRead_without_member:
  "\<not> truthy anggotaId \<Longrightarrow>
     markAsRead r notificationId source anggotaId w = (Returns False, w) \<and>
     markAsRead0 r notificationId source anggotaId w = (Returns False, w)"
  by (simp add: markAsRead_def markAsRead0_def)

theorem markAsRead_without_member_witness:
  "\<not> truthy None \<and>
   markAsRead example_remote ''G1'' (Some Global) None example_world = (Returns False, example_world) \<and>
   markAsRead0 example_remote ''G1'' (Some Global) None example_world = (Returns False, example_world)"
  using markAsRead_without_member [of None example_remote "''G1''" "Some Global" example_world]
  by (simp add: truthy_def)

section \<open>Marking everything\<close>

lemma markAllAsRead_transactions_eq:
  "markAllAsRead_transactions r a w =
     (case fault r Select_transaksi of
        Throwing \<Rightarrow> (Thrown, grows_by w [Select_transaksi])
      | Fails \<Rightarrow> (Returns False, grows_by w [Select_transaksi])
      | No_Fault \<Rightarrow>
          if filter (\<lambda>t. t_anggota_id t = a) (transaksi (db w)) = []
          then (Returns True, grows_by w [Select_transaksi])
          else
            (case fault r Update_transaksi_notifikasi_in of
               Throwing \<Rightarrow> (Thrown, grows_by w [Select_transaksi, Update_transaksi_notifikasi_in])
             | Fails \<Rightarrow> (Returns False, grows_by w [Select_transaksi, Update_transaksi_notifikasi_in])
             | No_Fault \<Rightarrow>
                 (Returns True,
                  (grows_by w [Select_transaksi, Update_transaksi_notifikasi_in])
                    \<lparr>db := set_read_in (now r)
                       (map t_id (filter (\<lambda>t. t_anggota_id t = a) (transaksi (db w)))) (db w)\<rparr>)))"
  by (cases "fault r Select_transaksi"; cases "fault r Update_transaksi_notifikasi_in")
     (simp_all add: markAllAsRead_transactions_def select_transaksi_def
        update_transaksi_notifikasi_in_def respond_eq respond_mutation_eq)



section \<open>The two layers of \<^verbatim>\<open>markAsRead\<close>\<close>

text \<open>What the direct update of one source does, request by request.\<close>

lemma markAsReadDirectly_Transaction_eq:
  "markAsReadDirectly r n Transaction a w =
     (case fault r Select_transaksi_notifikasi_id of
        No_Fault \<Rightarrow>
          (case filter (\<lambda>x. tn_id x = n) (transaksi_notifikasi (db w)) of
             [x] \<Rightarrow>
               (case fault r Update_transaksi_notifikasi_id of
                  No_Fault \<Rightarrow>
                    (Returns True,
                     (grows_by w [Select_transaksi_notifikasi_id, Update_transaksi_notifikasi_id])
                       \<lparr>db := set_read_id (now r) n (db w)\<rparr>)
                | _ \<Rightarrow>
                    (Returns False,
                     grows_by w [Select_transaksi_notifikasi_id, Update_transaksi_notifikasi_id]))
           | _ \<Rightarrow> (Returns False, grows_by w [Select_transaksi_notifikasi_id]))
      | _ \<Rightarrow> (Returns False, grows_by w [Select_transaksi_notifikasi_id]))"
  by (cases "fault r Select_transaksi_notifikasi_id";
      cases "fault r Update_transaksi_notifikasi_id")
     (simp_all add: markAsReadDirectly_def select_transaksi_notifikasi_id_def
        update_transaksi_notifikasi_id_def respond_single_eq respond_mutation_eq
        split: list.splits)

lemma markAsReadDirectly_Global_eq:
  "markAsReadDirectly r n Global a w =
     (case fault r Select_global_notifikasi_id of
        No_Fault \<Rightarrow>
          (case filter (\<lambda>g. gn_id g = n) (global_notifikasi (db w)) of
             [g] \<Rightarrow>
               (case fault r Select_global_notifikasi_read_pair of
                  No_Fault \<Rightarrow>
                    (case pair_rows n a (global_notifikasi_read (db w)) of
                       [s] \<Rightarrow>
                         (case fault r Update_global_notifikasi_read_pair of
                            No_Fault \<Rightarrow>
                              (Returns True,
                               (grows_by w [Select_global_notifikasi_id,
                                  Select_global_notifikasi_read_pair,
                                  Update_global_notifikasi_read_pair])
                                 \<lparr>db := set_read_pair (now r) n a (db w)\<rparr>)
                          | _ \<Rightarrow>
                              (Returns False,
                               grows_by w [Select_global_notifikasi_id,
                                 Select_global_notifikasi_read_pair,
                                 Update_global_notifikasi_read_pair]))
                     | _ \<Rightarrow>
                         (case fault r Insert_global_notifikasi_read of
                            No_Fault \<Rightarrow>
                              (Returns True,
                               (grows_by w [Select_global_notifikasi_id,
                                  Select_global_notifikasi_read_pair,
                                  Insert_global_notifikasi_read])
                                 \<lparr>db := insert_read_pair (now r) n a (db w)\<rparr>)
                          | _ \<Rightarrow>
                              (Returns False,
                               grows_by w [Select_global_notifikasi_id,
                                 Select_global_notifikasi_read_pair,
                                 Insert_global_notifikasi_read])))
                | _ \<Rightarrow>
                    (Returns False,
                     grows_by w [Select_global_notifikasi_id, Select_global_notifikasi_read_pair]))
           | _ \<Rightarrow> (Returns False, grows_by w [Select_global_notifikasi_id]))
      | _ \<Rightarrow> (Returns False, grows_by w [Select_global_notifikasi_id]))"
  by (cases "fault r Select_global_notifikasi_id";
      cases "fault r Select_global_notifikasi_read_pair";
      cases "fault r Update_global_notifikasi_read_pair";
      cases "fault r Insert_global_notifikasi_read")
     (simp_all add: markAsReadDirectly_def select_global_notifikasi_id_def
        select_global_notifikasi_read_pair_def update_global_notifikasi_read_pair_def
        insert_global_notifikasi_read_def respond_single_eq respond_mutation_eq
        split: list.splits)

lemma markAsReadDirectly_outcome:
  "fst (markAsReadDirectly r n s a w) = Returns True \<or>
   fst (markAsReadDirectly r n s a w) = Returns False"
  by (cases s)
     (simp_all add: markAsReadDirectly_Transaction_eq markAsReadDirectly_Global_eq
        split: fault.splits list.splits)

lemma markAsReadDirectly_requests:
  "requests (snd (markAsReadDirectly r n s a w)) =
     requests w @ sent w (snd (markAsReadDirectly r n s a w))"
  by (cases s)
     (simp_all add: markAsReadDirectly_Transaction_eq markAsReadDirectly_Global_eq
        split: fault.splits list.splits)

lemma markAsReadDirectly_cache:
  "notificationCache (snd (markAsReadDirectly r n s a w)) = notificationCache w"
  by (cases s)
     (simp_all add: markAsReadDirectly_Transaction_eq markAsReadDirectly_Global_eq
        split: fault.splits list.splits)

lemma markAsReadDirectly_Transaction_sent:
  "sent w (snd (markAsReadDirectly r n Transaction a w)) = [Select_transaksi_notifikasi_id] \<or>
   sent w (snd (markAsReadDirectly r n Transaction a w)) =
     [Select_transaksi_notifikasi_id, Update_transaksi_notifikasi_id]"
  by (simp add: markAsReadDirectly_Transaction_eq split: fault.splits list.splits)

lemma markAsReadDirectly_Global_sent:
  "sent w (snd (markAsReadDirectly r n Global a w)) \<in> set
     [[Select_global_notifikasi_id],
      [Select_global_notifikasi_id, Select_global_notifikasi_read_pair],
      [Select_global_notifikasi_id, Select_global_notifikasi_read_pair,
       Update_global_notifikasi_read_pair],
      [Select_global_notifikasi_id, Select_global_notifikasi_read_pair,
       Insert_global_notifikasi_read]]"
  by (simp add: markAsReadDirectly_Global_eq split: fault.splits list.splits)

lemma sent_append:
  "requests w1 = requests w @ a \<Longrightarrow> requests w2 = requests w1 @ b \<Longrightarrow> sent w w2 = a @ b"
  by (simp add: sent_def)

lemma sent_grows_later:
  "requests w1 = requests w @ a \<Longrightarrow> sent w (grows_by w1 b) = a @ b"
  by (simp add: sent_def)

lemma sent_self [simp]: "sent w w = []"
  by (simp add: sent_def)

lemma markAsReadUsingFunction_eq:
  "markAsReadUsingFunction r n src a w =
     (Returns (case fst (mark_notification_as_read r (db w) n a
                      (case src of None \<Rightarrow> ''auto'' | Some s \<Rightarrow> source_name s)) of
                 Data d \<Rightarrow> mr_success d
               | _ \<Rightarrow> False),
      (grows_by w [Rpc_mark_notification_as_read])
        \<lparr>db := snd (mark_notification_as_read r (db w) n a
                 (case src of None \<Rightarrow> ''auto'' | Some s \<Rightarrow> source_name s))\<rparr>)"
  by (simp add: markAsReadUsingFunction_def rpc_mark_notification_as_read_def send_grows
        case_prod_beta split: reply.splits)

lemma markAsReadDirect_given:
  "truthy anggotaId \<Longrightarrow>
     markAsReadDirect r n (Some s) anggotaId w = markAsReadDirectly r n s (the anggotaId) w"
  by (simp add: markAsReadDirect_def)

lemma markAsReadDirect_auto:
  "truthy anggotaId \<Longrightarrow>
     markAsReadDirect r n None anggotaId w =
       (if fst (markAsReadDirectly r n Transaction (the anggotaId) w) = Returns True
        then markAsReadDirectly r n Transaction (the anggotaId) w
        else markAsReadDirectly r n Global (the anggotaId)
               (snd (markAsReadDirectly r n Transaction (the anggotaId) w)))"
  using markAsReadDirectly_outcome [of r n Transaction "the anggotaId" w]
  by (auto simp add: markAsReadDirect_def case_prod_beta prod_eq_iff split: outcome.splits bool.splits)

lemma markAsReadDirect_outcome:
  "fst (markAsReadDirect r n src anggotaId w) = Returns True \<or>
   fst (markAsReadDirect r n src anggotaId w) = Returns False"
proof (cases "truthy anggotaId")
  case False
  then show ?thesis by (simp add: markAsReadDirect_def)
next
  case True
  show ?thesis
  proof (cases src)
    case None
    then show ?thesis
      using True markAsReadDirectly_outcome [of r n Global "the anggotaId"]
      by (simp add: markAsReadDirect_auto)
  next
    case (Some s)
    then show ?thesis
      using True markAsReadDirectly_outcome [of r n s "the anggotaId" w]
      by (simp add: markAsReadDirect_given)
  qed
qed

lemma markAsReadDirect_requests:
  "requests (snd (markAsReadDirect r n src anggotaId w)) =
     requests w @ sent w (snd (markAsReadDirect r n src anggotaId w))"
proof (cases "truthy anggotaId")
  case False
  then show ?thesis by (simp add: markAsReadDirect_def)
next
  case True
  show ?thesis
  proof (cases src)
    case (Some s)
    then show ?thesis
      using True markAsReadDirectly_requests [of r n s "the anggotaId" w]
      by (simp add: markAsReadDirect_given)
  next
    case None
    let ?t = "markAsReadDirectly r n Transaction (the anggotaId) w"
    let ?g = "markAsReadDirectly r n Global (the anggotaId) (snd ?t)"
    have t: "requests (snd ?t) = requests w @ sent w (snd ?t)"
      by (rule markAsReadDirectly_requests)
    have g: "requests (snd ?g) = requests (snd ?t) @ sent (snd ?t) (snd ?g)"
      by (rule markAsReadDirectly_requests)
    have "sent w (snd ?g) = sent w (snd ?t) @ sent (snd ?t) (snd ?g)"
      using t g by (rule sent_append)
    then have "requests (snd ?g) = requests w @ sent w (snd ?g)"
      using t g by simp
    then show ?thesis
      using None True t by (simp add: markAsReadDirect_auto)
  qed
qed

lemma markAsReadDirect_auto_sent:
  assumes "truthy anggotaId"
  shows "sent w (snd (markAsReadDirect r n None anggotaId w)) =
     sent w (snd (markAsReadDirectly r n Transaction (the anggotaId) w)) @
     (if fst (markAsReadDirectly r n Transaction (the anggotaId) w) = Returns True then []
      else sent (snd (markAsReadDirectly r n Transaction (the anggotaId) w))
             (snd (markAsReadDirectly r n Global (the anggotaId)
                (snd (markAsReadDirectly r n Transaction (the anggotaId) w)))))"
proof -
  let ?t = "markAsReadDirectly r n Transaction (the anggotaId) w"
  let ?g = "markAsReadDirectly r n Global (the anggotaId) (snd ?t)"
  have t: "requests (snd ?t) = requests w @ sent w (snd ?t)"
    by (rule markAsReadDirectly_requests)
  have g: "requests (snd ?g) = requests (snd ?t) @ sent (snd ?t) (snd ?g)"
    by (rule markAsReadDirectly_requests)
  have "sent w (snd ?g) = sent w (snd ?t) @ sent (snd ?t) (snd ?g)"
    using t g by (rule sent_append)
  then show ?thesis
    using assms by (simp add: markAsReadDirect_auto)
qed

lemma markAsReadDirect_sent_nonempty:
  assumes "truthy anggotaId"
  shows "sent w (snd (markAsReadDirect r n src anggotaId w)) \<noteq> []"
proof (cases src)
  case None
  then show ?thesis
    using assms markAsReadDirectly_Transaction_sent [of w r n "the anggotaId"]
    by (auto simp add: markAsReadDirect_auto_sent)
next
  case (Some s)
  then show ?thesis
    using assms markAsReadDirectly_Transaction_sent [of w r n "the anggotaId"]
      markAsReadDirectly_Global_sent [of w r n "the anggotaId"]
    by (cases s) (auto simp add: markAsReadDirect_given)
qed

lemma markAsReadDirect_no_function:
  "Rpc_mark_notification_as_read \<notin> set (sent w (snd (markAsReadDirect r n src anggotaId w)))"
proof (cases "truthy anggotaId")
  case False
  then show ?thesis by (simp add: markAsReadDirect_def)
next
  case True
  have t: "Rpc_mark_notification_as_read \<notin>
      set (sent w' (snd (markAsReadDirectly r n Transaction (the anggotaId) w')))" for w'
    using markAsReadDirectly_Transaction_sent [of w' r n "the anggotaId"] by auto
  have g: "Rpc_mark_notification_as_read \<notin>
      set (sent w' (snd (markAsReadDirectly r n Global (the anggotaId) w')))" for w'
    using markAsReadDirectly_Global_sent [of w' r n "the anggotaId"] by auto
  show ?thesis
  proof (cases src)
    case None
    then show ?thesis using True t g by (simp add: markAsReadDirect_auto_sent)
  next
    case (Some s)
    then show ?thesis using True t g by (cases s) (simp_all add: markAsReadDirect_given)
  qed
qed

lemma markAsRead_eq:
  "truthy anggotaId \<Longrightarrow>
   markAsRead r n src anggotaId w =
     (if fst (markAsReadDirect r n src anggotaId w) = Returns True
      then (Returns True, clearCache (snd (markAsReadDirect r n src anggotaId w)))
      else if fst (markAsReadUsingFunction r n src (the anggotaId)
                     (snd (markAsReadDirect r n src anggotaId w))) = Returns True
      then (Returns True,
            clearCache (snd (markAsReadUsingFunction r n src (the anggotaId)
                               (snd (markAsReadDirect r n src anggotaId w)))))
      else (Returns False,
            snd (markAsReadUsingFunction r n src (the anggotaId)
                   (snd (markAsReadDirect r n src anggotaId w)))))"
  using markAsReadDirect_outcome [of r n src anggotaId w]
  by (auto simp add: markAsRead_def markAsReadUsingFunction_eq case_prod_beta
        split: outcome.splits bool.splits)

lemma markAsRead_fallback_sent:
  "sent w (snd (markAsReadUsingFunction r n src a (snd (markAsReadDirect r n src anggotaId w)))) =
     sent w (snd (markAsReadDirect r n src anggotaId w)) @ [Rpc_mark_notification_as_read]"
proof -
  have "sent w (grows_by (snd (markAsReadDirect r n src anggotaId w)) [Rpc_mark_notification_as_read]) =
      sent w (snd (markAsReadDirect r n src anggotaId w)) @ [Rpc_mark_notification_as_read]"
    using markAsReadDirect_requests [of r n src anggotaId w] by (rule sent_grows_later)
  then show ?thesis by (simp add: markAsReadUsingFunction_eq)
qed

lemma markAsReadUsingFunction_outcome:
  "fst (markAsReadUsingFunction r n src a w) = Returns True \<or>
   fst (markAsReadUsingFunction r n src a w) = Returns False"
  by (simp add: markAsReadUsingFunction_eq)

text \<open>
  C2 (amended). In \<^verbatim>\<open>part_001\<close>, \<^verbatim>\<open>markAsRead\<close> with a member id attempts the
  direct layer first, and the direct layer sends no request to the privileged
  procedure. With a source given the direct layer is the direct update of that
  source alone, and its requests go to the tables of that source. With the
  source omitted it is the direct update of the transaction source and, only
  if that one did not succeed, then the direct update of the global source.
  If the direct layer succeeds, \<^verbatim>\<open>markAsRead\<close> returns true and sends nothing
  more. Otherwise it calls the privileged procedure, as its last request, and
  returns what that layer returns; it returns false exactly when both layers
  fail.
\<close>

theorem markAsRead_layers:
  "truthy anggotaId \<Longrightarrow>
   (let direct = markAsReadDirect r notificationId source anggotaId w;
        fallback = markAsReadUsingFunction r notificationId source (the anggotaId) (snd direct);
        final = markAsRead r notificationId source anggotaId w
    in sent w (snd direct) \<noteq> [] \<and>
       Rpc_mark_notification_as_read \<notin> set (sent w (snd direct)) \<and>
       (source = Some Transaction \<longrightarrow>
          direct = markAsReadDirectly r notificationId Transaction (the anggotaId) w \<and>
          set (sent w (snd direct)) \<subseteq>
            {Select_transaksi_notifikasi_id, Update_transaksi_notifikasi_id}) \<and>
       (source = Some Global \<longrightarrow>
          direct = markAsReadDirectly r notificationId Global (the anggotaId) w \<and>
          set (sent w (snd direct)) \<subseteq>
            {Select_global_notifikasi_id, Select_global_notifikasi_read_pair,
             Update_global_notifikasi_read_pair, Insert_global_notifikasi_read}) \<and>
       (source = None \<longrightarrow>
          (let first = markAsReadDirectly r notificationId Transaction (the anggotaId) w;
               second = markAsReadDirectly r notificationId Global (the anggotaId) (snd first)
           in direct = (if fst first = Returns True then first else second) \<and>
              sent w (snd direct) =
                sent w (snd first) @
                (if fst first = Returns True then [] else sent (snd first) (snd second)))) \<and>
       (fst direct = Returns True \<longrightarrow>
          fst final = Returns True \<and> sent w (snd final) = sent w (snd direct)) \<and>
       (fst direct \<noteq> Returns True \<longrightarrow>
          fst final = fst fallback \<and>
          sent w (snd final) = sent w (snd direct) @ [Rpc_mark_notification_as_read]) \<and>
       (fst final = Returns False \<longleftrightarrow>
          fst direct = Returns False \<and> fst fallback = Returns False))"
proof -
  assume a: "truthy anggotaId"
  let ?direct = "markAsReadDirect r notificationId source anggotaId w"
  let ?fallback = "markAsReadUsingFunction r notificationId source (the anggotaId) (snd ?direct)"
  let ?final = "markAsRead r notificationId source anggotaId w"
  have c1: "sent w (snd ?direct) \<noteq> []"
    using a by (rule markAsReadDirect_sent_nonempty)
  have c2: "Rpc_mark_notification_as_read \<notin> set (sent w (snd ?direct))"
    by (rule markAsReadDirect_no_function)
  have c3: "source = Some Transaction \<longrightarrow>
      ?direct = markAsReadDirectly r notificationId Transaction (the anggotaId) w \<and>
      set (sent w (snd ?direct)) \<subseteq>
        {Select_transaksi_notifikasi_id, Update_transaksi_notifikasi_id}"
    using a markAsReadDirectly_Transaction_sent [of w r notificationId "the anggotaId"]
    by (auto simp add: markAsReadDirect_given)
  have c4: "source = Some Global \<longrightarrow>
      ?direct = markAsReadDirectly r notificationId Global (the anggotaId) w \<and>
      set (sent w (snd ?direct)) \<subseteq>
        {Select_global_notifikasi_id, Select_global_notifikasi_read_pair,
         Update_global_notifikasi_read_pair, Insert_global_notifikasi_read}"
    using a markAsReadDirectly_Global_sent [of w r notificationId "the anggotaId"]
    by (auto simp add: markAsReadDirect_given)
  have c5: "source = None \<longrightarrow>
      (let first = markAsReadDirectly r notificationId Transaction (the anggotaId) w;
           second = markAsReadDirectly r notificationId Global (the anggotaId) (snd first)
       in ?direct = (if fst first = Returns True then first else second) \<and>
          sent w (snd ?direct) =
            sent w (snd first) @
            (if fst first = Returns True then [] else sent (snd first) (snd second)))"
    using a markAsReadDirect_auto_sent [of anggotaId w r notificationId]
    by (simp add: Let_def markAsReadDirect_auto)
  have c6: "fst ?direct = Returns True \<longrightarrow>
      fst ?final = Returns True \<and> sent w (snd ?final) = sent w (snd ?direct)"
    using a by (simp add: markAsRead_eq)
  have c7: "fst ?direct \<noteq> Returns True \<longrightarrow>
      fst ?final = fst ?fallback \<and>
      sent w (snd ?final) = sent w (snd ?direct) @ [Rpc_mark_notification_as_read]"
    using a markAsReadUsingFunction_outcome [of r notificationId source "the anggotaId" "snd ?direct"]
    by (auto simp add: markAsRead_eq markAsRead_fallback_sent)
  have c8: "fst ?final = Returns False \<longleftrightarrow>
      fst ?direct = Returns False \<and> fst ?fallback = Returns False"
    using a markAsReadDirect_outcome [of r notificationId source anggotaId w]
      markAsReadUsingFunction_outcome [of r notificationId source "the anggotaId" "snd ?direct"]
    by (auto simp add: markAsRead_eq)
  show ?thesis
    unfolding Let_def using c1 c2 c3 c4 c5 [unfolded Let_def] c6 c7 c8 by blast
qed

text \<open>
  In the example world, marking \<open>G1\<close> for \<open>M1\<close> without a source: the
  transaction table is asked first, then the read-status row is updated.
\<close>

theorem markAsRead_layers_witness:
  "truthy (Some ''M1'') \<and>
   fst (markAsRead example_remote ''G1'' None (Some ''M1'') example_world) = Returns True \<and>
   sent example_world (snd (markAsRead example_remote ''G1'' None (Some ''M1'') example_world)) =
     [Select_transaksi_notifikasi_id, Select_global_notifikasi_id,
      Select_global_notifikasi_read_pair, Update_global_notifikasi_read_pair]"
proof -
  have t: "truthy (Some ''M1'')"
    by (simp add: truthy_def)
  have d: "fst (markAsReadDirect example_remote ''G1'' None (Some ''M1'') example_world) = Returns True"
    by code_simp
  have s: "sent example_world (snd (markAsReadDirect example_remote ''G1'' None (Some ''M1'') example_world)) =
     [Select_transaksi_notifikasi_id, Select_global_notifikasi_id,
      Select_global_notifikasi_read_pair, Update_global_notifikasi_read_pair]"
    by code_simp
  show ?thesis
    using markAsRead_layers [OF t, of example_remote "''G1''" None example_world] t d s
    by (simp add: Let_def)
qed

text \<open>
  The claim as first stated fails on \<^verbatim>\<open>markAsRead\<close> of \<^verbatim>\<open>part_000\<close>: where the
  privileged procedure answers true it is the first and only request, although
  the direct update would have succeeded.
\<close>

theorem markAsRead0_function_first_counterexample:
  "truthy (Some ''M1'') \<and>
   fst (markAsReadDirectly0
          (example_remote\<lparr>mark_notification_as_read0 := (\<lambda>d n s m. (Data True, d))\<rparr>)
          ''N1'' (Some Transaction) (Some ''M1'') example_world) = Returns True \<and>
   fst (markAsRead0
          (example_remote\<lparr>mark_notification_as_read0 := (\<lambda>d n s m. (Data True, d))\<rparr>)
          ''N1'' (Some Transaction) (Some ''M1'') example_world) = Returns True \<and>
   sent example_world
     (snd (markAsRead0
             (example_remote\<lparr>mark_notification_as_read0 := (\<lambda>d n s m. (Data True, d))\<rparr>)
             ''N1'' (Some Transaction) (Some ''M1'') example_world)) =
     [Rpc_mark_notification_as_read]"
  by code_simp

section \<open>One read-status row for a pair\<close>

lemma pair_rows_distinct:
  "distinct (map pair_of rows) \<Longrightarrow>
     pair_rows n a rows = [] \<or> (\<exists>s. pair_rows n a rows = [s])"
proof (induction rows)
  case Nil
  then show ?case by (simp add: pair_rows_def)
next
  case (Cons x rows)
  have "pair_rows n a rows = []" if x: "pair_of x = (n, a)"
  proof -
    have "(n, a) \<notin> pair_of ` set rows"
      using Cons.prems x by simp
    then have "\<forall>y\<in>set rows. pair_of y \<noteq> (n, a)"
      by (metis imageI)
    then show ?thesis
      by (simp add: pair_rows_def pair_of_def filter_empty_conv)
  qed
  then show ?case
    using Cons by (auto simp add: pair_rows_def pair_of_def)
qed

lemma pair_rows_empty:
  "pair_rows n a rows = [] \<Longrightarrow> (n, a) \<notin> set (map pair_of rows)"
  by (auto simp add: pair_rows_def pair_of_def filter_empty_conv)

lemma set_read_pair_pairs:
  "map pair_of (global_notifikasi_read (set_read_pair t n a d)) =
     map pair_of (global_notifikasi_read d)"
  by (simp add: set_read_pair_def pair_of_def)

lemma insert_read_pair_pairs:
  "map pair_of (global_notifikasi_read (insert_read_pair t n a d)) =
     map pair_of (global_notifikasi_read d) @ [(n, a)]"
  by (simp add: insert_read_pair_def pair_of_def)

text \<open>
  The direct update of \<^verbatim>\<open>part_001\<close> keeps the pairs distinct, whatever fails:
  it inserts only after the lookup has reported that the pair has no row.
\<close>

lemma markAsReadDirectly_keeps_pairs_distinct:
  assumes "distinct (map pair_of (global_notifikasi_read (db w)))"
  shows "distinct (map pair_of (global_notifikasi_read (db (snd (markAsReadDirectly r n s a w)))))"
proof (cases s)
  case Transaction
  then show ?thesis
    using assms
    by (simp add: markAsReadDirectly_Transaction_eq set_read_id_def
          split: fault.splits list.splits)
next
  case Global
  from assms pair_rows_distinct [of "global_notifikasi_read (db w)" n a]
  consider "pair_rows n a (global_notifikasi_read (db w)) = []"
    | x where "pair_rows n a (global_notifikasi_read (db w)) = [x]"
    by blast
  then show ?thesis
  proof cases
    case 1
    then show ?thesis
      using assms Global pair_rows_empty [OF 1]
      by (simp add: markAsReadDirectly_Global_eq insert_read_pair_pairs
            split: fault.splits list.splits)
  next
    case 2
    then show ?thesis
      using assms Global
      by (simp add: markAsReadDirectly_Global_eq set_read_pair_pairs
            split: fault.splits list.splits)
  qed
qed

text \<open>
  Where nothing fails and the notification exists, the direct update of
  \<^verbatim>\<open>part_001\<close> succeeds either way: it appends a row with \<^verbatim>\<open>is_read = true\<close> for
  a pair without a row, and sets \<^verbatim>\<open>is_read\<close> in the row of a pair that has one.
\<close>

lemma markAsReadDirectly_insert_or_update:
  assumes "fault r Select_global_notifikasi_id = No_Fault"
    "fault r Select_global_notifikasi_read_pair = No_Fault"
    "fault r Update_global_notifikasi_read_pair = No_Fault"
    "fault r Insert_global_notifikasi_read = No_Fault"
    "filter (\<lambda>g. gn_id g = n) (global_notifikasi (db w)) = [g]"
  shows "pair_rows n a (global_notifikasi_read (db w)) = [] \<Longrightarrow>
           markAsReadDirectly r n Global a w =
             (Returns True,
              (grows_by w [Select_global_notifikasi_id, Select_global_notifikasi_read_pair,
                           Insert_global_notifikasi_read])
                \<lparr>db := insert_read_pair (now r) n a (db w)\<rparr>)"
    and "pair_rows n a (global_notifikasi_read (db w)) = [s] \<Longrightarrow>
           markAsReadDirectly r n Global a w =
             (Returns True,
              (grows_by w [Select_global_notifikasi_id, Select_global_notifikasi_read_pair,
                           Update_global_notifikasi_read_pair])
                \<lparr>db := set_read_pair (now r) n a (db w)\<rparr>)"
  using assms by (simp_all add: markAsReadDirectly_Global_eq)

text \<open>
  C5. The direct update of \<^verbatim>\<open>part_000\<close> takes a lookup that failed for a pair
  without a row. In the example world \<open>M1\<close> has a row for \<open>G1\<close>; when the lookup
  of that row returns an error, \<^verbatim>\<open>markAsRead\<close> (whose remote procedure is not
  deployed) inserts a second row for the pair and reports success.
\<close>

theorem markAsRead0_duplicate_read_status:
  "distinct (map pair_of (global_notifikasi_read (db example_world))) \<and>
   fst (markAsRead0
          (example_remote\<lparr>fault :=
             (\<lambda>q. if q = Select_global_notifikasi_read_pair then Fails else No_Fault)\<rparr>)
          ''G1'' (Some Global) (Some ''M1'') example_world) = Returns True \<and>
   map pair_of (global_notifikasi_read (db (snd (markAsRead0
          (example_remote\<lparr>fault :=
             (\<lambda>q. if q = Select_global_notifikasi_read_pair then Fails else No_Fault)\<rparr>)
          ''G1'' (Some Global) (Some ''M1'') example_world)))) =
     [(''G1'', ''M1''), (''G1'', ''M1'')]"
  by code_simp

section \<open>What \<^verbatim>\<open>getNotifications\<close> fetches\<close>

lemma set_insert_by [simp]: "set (insert_by le x ys) = insert x (set ys)"
  by (induction ys) auto

lemma length_insert_by [simp]: "length (insert_by le x ys) = Suc (length ys)"
  by (induction ys) auto

lemma set_sort_by [simp]: "set (sort_by le xs) = set xs"
  by (induction xs) (simp_all add: sort_by_def)

lemma length_sort_by [simp]: "length (sort_by le xs) = length xs"
  by (induction xs) (simp_all add: sort_by_def)

lemma set_order_desc [simp]: "set (order_desc k xs) = set xs"
  by (simp add: order_desc_def)

lemma set_js_sort [simp]: "set (js_sort c xs) = set xs"
  by (simp add: js_sort_def)

lemma length_js_sort [simp]: "length (js_sort c xs) = length xs"
  by (simp add: js_sort_def)

lemma snd_requests [simp]:
  "snd (respond r q x w) = grows_by w [q]"
  "snd (respond_single r q rows w) = grows_by w [q]"
  by (simp_all add: respond_eq respond_single_eq)

lemma snd_selects [simp]:
  "snd (select_transaksi r a w) = grows_by w [Select_transaksi]"
  "snd (select_transaksi_notifikasi_in r ids l w) = grows_by w [Select_transaksi_notifikasi_in]"
  "snd (select_transaksi_notifikasi_jenis r j l w) = grows_by w [Select_transaksi_notifikasi_jenis]"
  "snd (select_global_notifikasi_inner r a w) = grows_by w [Select_global_notifikasi_inner]"
  "snd (select_global_notifikasi r w) = grows_by w [Select_global_notifikasi]"
  "snd (select_global_notifikasi_read_member r a w) = grows_by w [Select_global_notifikasi_read_member]"
  "snd (select_global_notifikasi_left r j l w) = grows_by w [Select_global_notifikasi_left]"
  "snd (rpc_get_member_transaction_notifications r a l w) = grows_by w [Rpc_get_member_transaction_notifications]"
  "snd (rpc_get_member_global_notifications r a w) = grows_by w [Rpc_get_member_global_notifications]"
  by (simp_all add: select_transaksi_def select_transaksi_notifikasi_in_def
      select_transaksi_notifikasi_jenis_def select_global_notifikasi_inner_def
      select_global_notifikasi_def select_global_notifikasi_read_member_def
      select_global_notifikasi_left_def rpc_get_member_transaction_notifications_def
      rpc_get_member_global_notifications_def send_grows)

lemma fetch_transactionNotifications_world:
  "snd (fetch_transactionNotifications r a l w) =
     grows_by w (sent w (snd (fetch_transactionNotifications r a l w)))"
  by (simp add: fetch_transactionNotifications_def case_prod_beta split: reply.splits)

lemma fetch_transactionNotifications_sent:
  "sent w (snd (fetch_transactionNotifications r a l w)) \<noteq> []"
  by (simp add: fetch_transactionNotifications_def case_prod_beta split: reply.splits)

lemma fetch_jatuhTempoNotifications_world:
  "snd (fetch_jatuhTempoNotifications r l w) = grows_by w [Select_transaksi_notifikasi_jenis]"
  by (simp add: fetch_jatuhTempoNotifications_def case_prod_beta split: reply.splits)

lemma fetch_globalNotifications_world:
  "snd (fetch_globalNotifications r a w) =
     grows_by w (sent w (snd (fetch_globalNotifications r a w)))"
  by (simp add: fetch_globalNotifications_def case_prod_beta Let_def split: reply.splits)

lemma fetch_globalNotifications0_world:
  "snd (fetch_globalNotifications0 r a w) =
     grows_by w (sent w (snd (fetch_globalNotifications0 r a w)))"
  by (simp add: fetch_globalNotifications0_def case_prod_beta Let_def split: reply.splits)

lemma fst_rpcs:
  "fst (rpc_get_member_transaction_notifications r a l w) =
     get_member_transaction_notifications r (db w) a l"
  "fst (rpc_get_member_global_notifications r a w) = get_member_global_notifications r (db w) a"
  by (simp_all add: rpc_get_member_transaction_notifications_def
        rpc_get_member_global_notifications_def)

lemma fst_selects:
  "fst (select_transaksi r a w) = Data x \<Longrightarrow>
     x = filter (\<lambda>t. t_anggota_id t = a) (transaksi (db w))"
  "fst (select_transaksi_notifikasi_in r ids l w) = Data y \<Longrightarrow>
     set y \<subseteq> set (transaksi_notifikasi (db w))"
  "fst (select_transaksi_notifikasi_jenis r j l w) = Data y \<Longrightarrow>
     set y \<subseteq> set (transaksi_notifikasi (db w))"
  "fst (select_global_notifikasi r w) = Data z \<Longrightarrow>
     set z \<subseteq> set (global_notifikasi (db w))"
  "fst (select_global_notifikasi_inner r a w) = Data js \<Longrightarrow>
     gj_notification ` set js \<subseteq> set (global_notifikasi (db w))"
  by (auto simp add: select_transaksi_def select_transaksi_notifikasi_in_def
        select_transaksi_notifikasi_jenis_def select_global_notifikasi_def
        select_global_notifikasi_inner_def respond_eq
        split: fault.splits dest: in_set_takeD)

lemma fetch_transactionNotifications_rows:
  "fst (fetch_transactionNotifications r a l w) = Returns xs \<Longrightarrow>
     set xs \<subseteq> set (delivered_transaction_rows r (db w) a l)"
  using fst_selects(2) [of r "map t_id (filter (\<lambda>t. t_anggota_id t = a) (transaksi (db w)))" l
      "grows_by w [Rpc_get_member_transaction_notifications, Select_transaksi]"]
  by (auto simp add: fetch_transactionNotifications_def case_prod_beta fst_rpcs
        delivered_transaction_rows_def
        split: reply.splits if_splits dest!: fst_selects(1))

lemma fetch_jatuhTempoNotifications_rows:
  "set (fst (fetch_jatuhTempoNotifications r l w)) \<subseteq> set (transaksi_notifikasi (db w))"
  using fst_selects(3) [of r "''jatuh_tempo''" l w]
  by (auto simp add: fetch_jatuhTempoNotifications_def case_prod_beta split: reply.splits)

lemma fetch_globalNotifications_rows:
  "fst (fetch_globalNotifications r a w) = Returns (gs, m) \<Longrightarrow>
     set gs \<subseteq> set (delivered_global_rows r (db w) a)"
  using fst_selects(4) [of r "grows_by w [Rpc_get_member_global_notifications, Select_global_notifikasi_inner]"]
    fst_selects(5) [of r a "grows_by w [Rpc_get_member_global_notifications]"]
  by (auto simp add: fetch_globalNotifications_def case_prod_beta fst_rpcs Let_def
        delivered_global_rows_def split: reply.splits if_splits)

lemma fetch_globalNotifications0_rows:
  "fst (fetch_globalNotifications0 r a w) = Returns (gs, m) \<Longrightarrow>
     set gs \<subseteq> set (global_notifikasi (db w))"
  using fst_selects(4) [of r w]
  by (auto simp add: fetch_globalNotifications0_def case_prod_beta Let_def
        split: reply.splits if_splits)

lemma fetch_fields [simp]:
  "db (snd (fetch_transactionNotifications r a l w)) = db w"
  "notificationCache (snd (fetch_transactionNotifications r a l w)) = notificationCache w"
  "db (snd (fetch_jatuhTempoNotifications r l w)) = db w"
  "notificationCache (snd (fetch_jatuhTempoNotifications r l w)) = notificationCache w"
  "db (snd (fetch_globalNotifications r a w)) = db w"
  "notificationCache (snd (fetch_globalNotifications r a w)) = notificationCache w"
  "db (snd (fetch_globalNotifications0 r a w)) = db w"
  "notificationCache (snd (fetch_globalNotifications0 r a w)) = notificationCache w"
  using fetch_transactionNotifications_world [of r a l w]
    fetch_jatuhTempoNotifications_world [of r l w]
    fetch_globalNotifications_world [of r a w]
    fetch_globalNotifications0_world [of r a w]
    grows_by_fields(1,2)
  by metis+

subsection \<open>Newest first\<close>

lemma insert_by_sorted:
  "parses (n_created_at x) \<Longrightarrow> \<forall>y\<in>set ys. parses (n_created_at y) \<Longrightarrow>
   sorted_wrt (\<lambda>a b. instant_of b \<le> instant_of a) ys \<Longrightarrow>
   sorted_wrt (\<lambda>a b. instant_of b \<le> instant_of a)
     (insert_by (\<lambda>a b. case compare_created_at a b of None \<Rightarrow> True | Some v \<Rightarrow> v \<le> 0) x ys)"
  by (induction ys)
     (auto simp add: compare_created_at_def instant_of_def parses_def split: option.splits)

lemma js_sort_sorted:
  "\<forall>y\<in>set xs. parses (n_created_at y) \<Longrightarrow>
   sorted_wrt (\<lambda>a b. instant_of b \<le> instant_of a) (js_sort compare_created_at xs)"
proof (induction xs)
  case Nil
  then show ?case by (simp add: js_sort_def sort_by_def)
next
  case (Cons x xs)
  have "set (sort_by (\<lambda>a b. case compare_created_at a b of None \<Rightarrow> True | Some v \<Rightarrow> v \<le> 0) xs) = set xs"
    by simp
  then show ?case
    using Cons insert_by_sorted [of x "js_sort compare_created_at xs"]
    by (simp add: js_sort_def sort_by_def)
qed

lemma instants_parsed:
  "\<forall>y\<in>set ns. parses (n_created_at y) \<Longrightarrow> instants ns = map instant_of ns"
  by (induction ns)
     (auto simp add: instants_def instant_of_def parses_def List.map_filter_simps split: option.splits)

lemma sorted_instants:
  assumes "\<forall>y\<in>set xs. parses (n_created_at y)"
  shows "sorted_wrt (\<ge>) (instants (take l (js_sort compare_created_at xs)))"
proof -
  have p: "\<forall>y\<in>set (take l (js_sort compare_created_at xs)). parses (n_created_at y)"
    using assms by (auto dest: in_set_takeD)
  have "sorted_wrt (\<lambda>a b. instant_of b \<le> instant_of a) (take l (js_sort compare_created_at xs))"
    using js_sort_sorted [OF assms] by (rule sorted_wrt_take)
  then show ?thesis
    by (simp add: instants_parsed [OF p] sorted_wrt_map)
qed

subsection \<open>The cache key determines the member and the limit\<close>

lemma of_char_digit_char: "d < 10 \<Longrightarrow> of_char (digit_char d) = (48 + d :: nat)"
  by (simp add: digit_char_def)

lemma digit_char_not_hyphen: "d < 10 \<Longrightarrow> digit_char d \<noteq> CHR ''-''"
proof
  assume d: "d < 10" and e: "digit_char d = CHR ''-''"
  have "(of_char (digit_char d) :: nat) = of_char (CHR ''-'')"
    using e by simp
  then show False
    using d by (simp add: of_char_digit_char)
qed

lemma show_nat_no_hyphen: "CHR ''-'' \<notin> set (show_nat n)"
proof (induction n rule: show_nat.induct)
  case (1 n)
  show ?case
  proof (cases "n < 10")
    case True
    then show ?thesis
      using digit_char_not_hyphen [of n] by (subst show_nat.simps) auto
  next
    case False
    then show ?thesis
      using 1 digit_char_not_hyphen [of "n mod 10"] by (subst show_nat.simps) auto
  qed
qed

lemma read_show_nat: "read_nat (show_nat n) = n"
proof (induction n rule: show_nat.induct)
  case (1 n)
  show ?case
  proof (cases "n < 10")
    case True
    then show ?thesis
      by (subst show_nat.simps) (simp add: read_nat_def of_char_digit_char)
  next
    case False
    then have "read_nat (show_nat (n div 10)) = n div 10"
      using 1 by simp
    then show ?thesis
      using False
      by (subst show_nat.simps) (simp add: read_nat_def of_char_digit_char)
  qed
qed

lemma show_nat_inj: "show_nat m = show_nat n \<Longrightarrow> m = n"
  by (metis read_show_nat)

lemma split_at_last:
  assumes "xs @ c # ys = xs' @ c # ys'" "c \<notin> set ys" "c \<notin> set ys'"
  shows "xs = xs' \<and> ys = ys'"
proof -
  have "rev ys @ c # rev xs = rev ys' @ c # rev xs'"
    using assms(1) by (metis rev_append rev.simps(2) append_Cons append_Nil append_assoc)
  then have e: "takeWhile (\<lambda>x. x \<noteq> c) (rev ys @ c # rev xs) =
             takeWhile (\<lambda>x. x \<noteq> c) (rev ys' @ c # rev xs')"
    by simp
  have t: "takeWhile (\<lambda>x. x \<noteq> c) (rev zs @ c # us) = rev zs" if "c \<notin> set zs" for zs us
    using that by (subst takeWhile_append2) auto
  have "rev ys = rev ys'"
    using e t [OF assms(2), of "rev xs"] t [OF assms(3), of "rev xs'"] by simp
  then show ?thesis
    using assms(1) by simp
qed

lemma cacheKey_inj:
  "cacheKey a l = cacheKey a' l' \<Longrightarrow> a = a' \<and> l = l'"
  using split_at_last [of a "CHR ''-''" "show_nat l" a' "show_nat l'"]
    show_nat_no_hyphen show_nat_inj
  by (auto simp add: cacheKey_def)

subsection \<open>The fetches together\<close>

lemma getNotifications_hit:
  "\<not> f \<Longrightarrow> notificationCache w (cacheKey a l) = Some c \<Longrightarrow>
     getNotifications r a l f w = (Returns c, w) \<and> getNotifications0 r a l f w = (Returns c, w)"
  by (simp add: getNotifications_def getNotifications0_def)

lemma getNotifications_miss:
  assumes "f \<or> notificationCache w (cacheKey a l) = None"
  shows "getNotifications r a l f w =
     (case fetch_all r a l w of
        (Thrown, w') \<Rightarrow> (Returns [], w')
      | (Returns (tx, jt, gs, m), w') \<Rightarrow>
          (Returns (merged a l tx jt gs m),
           w'\<lparr>notificationCache := (notificationCache w')(cacheKey a l \<mapsto> merged a l tx jt gs m)\<rparr>))"
  using assms
  by (auto simp add: getNotifications_def fetch_all_def merged_def Let_def
        split: outcome.splits prod.splits)

lemma getNotifications0_miss:
  assumes "f \<or> notificationCache w (cacheKey a l) = None"
  shows "getNotifications0 r a l f w =
     (case fetch_all0 r a l w of
        (Thrown, w') \<Rightarrow> (Returns [], w')
      | (Returns (tx, gs, m), w') \<Rightarrow>
          (Returns (merged0 a l tx gs m),
           w'\<lparr>notificationCache := (notificationCache w')(cacheKey a l \<mapsto> merged0 a l tx gs m)\<rparr>))"
  using assms
  by (auto simp add: getNotifications0_def fetch_all0_def merged0_def Let_def
        split: outcome.splits prod.splits)

lemma fetch_requests:
  "requests (snd (fetch_transactionNotifications r a l w)) =
     requests w @ sent w (snd (fetch_transactionNotifications r a l w))"
  "requests (snd (fetch_jatuhTempoNotifications r l w)) =
     requests w @ sent w (snd (fetch_jatuhTempoNotifications r l w))"
  "requests (snd (fetch_globalNotifications r a w)) =
     requests w @ sent w (snd (fetch_globalNotifications r a w))"
  "requests (snd (fetch_globalNotifications0 r a w)) =
     requests w @ sent w (snd (fetch_globalNotifications0 r a w))"
  using fetch_transactionNotifications_world [of r a l w]
    fetch_jatuhTempoNotifications_world [of r l w]
    fetch_globalNotifications_world [of r a w]
    fetch_globalNotifications0_world [of r a w]
    grows_by_fields(3) sent_grows_by
  by metis+

lemma fetch_all_fields [simp]:
  "db (snd (fetch_all r a l w)) = db w"
  "notificationCache (snd (fetch_all r a l w)) = notificationCache w"
  "db (snd (fetch_all0 r a l w)) = db w"
  "notificationCache (snd (fetch_all0 r a l w)) = notificationCache w"
  by (simp_all add: fetch_all_def fetch_all0_def case_prod_beta split: outcome.splits)

lemma sent_nonempty_later:
  "requests w1 = requests w @ a \<Longrightarrow> a \<noteq> [] \<Longrightarrow> requests w2 = requests w1 @ b \<Longrightarrow>
     sent w w2 \<noteq> []"
  by (simp add: sent_def)

lemma fetch_all_sent:
  "sent w (snd (fetch_all r a l w)) \<noteq> []"
proof -
  let ?t = "fetch_transactionNotifications r a l w"
  let ?j = "fetch_jatuhTempoNotifications r l (snd ?t)"
  let ?g = "fetch_globalNotifications r a (snd ?j)"
  have t: "requests (snd ?t) = requests w @ sent w (snd ?t)" by (rule fetch_requests)
  have n: "sent w (snd ?t) \<noteq> []" by (rule fetch_transactionNotifications_sent)
  have j: "requests (snd ?j) = requests (snd ?t) @ sent (snd ?t) (snd ?j)" by (rule fetch_requests)
  have g: "requests (snd ?g) = requests (snd ?j) @ sent (snd ?j) (snd ?g)" by (rule fetch_requests)
  have "requests (snd ?g) = requests (snd ?t) @ (sent (snd ?t) (snd ?j) @ sent (snd ?j) (snd ?g))"
    using j g by simp
  with t n have "sent w (snd ?g) \<noteq> []" by (rule sent_nonempty_later)
  then show ?thesis
    using n by (simp add: fetch_all_def case_prod_beta split: outcome.splits)
qed

lemma fetch_all0_sent:
  "sent w (snd (fetch_all0 r a l w)) \<noteq> []"
proof -
  let ?t = "fetch_transactionNotifications r a l w"
  let ?g = "fetch_globalNotifications0 r a (snd ?t)"
  have t: "requests (snd ?t) = requests w @ sent w (snd ?t)" by (rule fetch_requests)
  have n: "sent w (snd ?t) \<noteq> []" by (rule fetch_transactionNotifications_sent)
  have g: "requests (snd ?g) = requests (snd ?t) @ sent (snd ?t) (snd ?g)" by (rule fetch_requests)
  from t n g have "sent w (snd ?g) \<noteq> []" by (rule sent_nonempty_later)
  then show ?thesis
    using n by (simp add: fetch_all0_def case_prod_beta split: outcome.splits)
qed

lemma fetch_all_rows:
  assumes "fst (fetch_all r a l w) = Returns (tx, jt, gs, m)"
  shows "set tx \<subseteq> set (delivered_transaction_rows r (db w) a l)"
    and "set jt \<subseteq> set (transaksi_notifikasi (db w))"
    and "set gs \<subseteq> set (delivered_global_rows r (db w) a)"
proof -
  let ?t = "fetch_transactionNotifications r a l w"
  let ?j = "fetch_jatuhTempoNotifications r l (snd ?t)"
  let ?g = "fetch_globalNotifications r a (snd ?j)"
  from assms have t: "fst ?t = Returns tx" and j: "fst ?j = jt" and g: "fst ?g = Returns (gs, m)"
    by (auto simp add: fetch_all_def case_prod_beta split: outcome.splits)
  show "set tx \<subseteq> set (delivered_transaction_rows r (db w) a l)"
    using t by (rule fetch_transactionNotifications_rows)
  show "set jt \<subseteq> set (transaksi_notifikasi (db w))"
    using fetch_jatuhTempoNotifications_rows [of r l "snd ?t"] j by simp
  show "set gs \<subseteq> set (delivered_global_rows r (db w) a)"
    using fetch_globalNotifications_rows [OF g] by simp
qed

lemma fetch_all0_rows:
  assumes "fst (fetch_all0 r a l w) = Returns (tx, gs, m)"
  shows "set tx \<subseteq> set (delivered_transaction_rows r (db w) a l)"
    and "set gs \<subseteq> set (global_notifikasi (db w))"
proof -
  let ?t = "fetch_transactionNotifications r a l w"
  let ?g = "fetch_globalNotifications0 r a (snd ?t)"
  from assms have t: "fst ?t = Returns tx" and g: "fst ?g = Returns (gs, m)"
    by (auto simp add: fetch_all0_def case_prod_beta split: outcome.splits)
  show "set tx \<subseteq> set (delivered_transaction_rows r (db w) a l)"
    using t by (rule fetch_transactionNotifications_rows)
  show "set gs \<subseteq> set (global_notifikasi (db w))"
    using fetch_globalNotifications0_rows [OF g] by simp
qed

section \<open>The feed is newest first and within the limit\<close>

lemma getNotifications_cases [case_names hit failed fetched]:
  obtains
    (hit) c where "\<not> f" "notificationCache w (cacheKey a l) = Some c"
      "getNotifications r a l f w = (Returns c, w)"
  | (failed) "f \<or> notificationCache w (cacheKey a l) = None"
      "fst (fetch_all r a l w) = Thrown"
      "getNotifications r a l f w = (Returns [], snd (fetch_all r a l w))"
  | (fetched) tx jt gs m where "f \<or> notificationCache w (cacheKey a l) = None"
      "fst (fetch_all r a l w) = Returns (tx, jt, gs, m)"
      "getNotifications r a l f w =
         (Returns (merged a l tx jt gs m),
          (snd (fetch_all r a l w))\<lparr>notificationCache :=
             (notificationCache w)(cacheKey a l \<mapsto> merged a l tx jt gs m)\<rparr>)"
proof (cases "f \<or> notificationCache w (cacheKey a l) = None")
  case False
  then obtain c where "\<not> f" "notificationCache w (cacheKey a l) = Some c"
    by auto
  then show ?thesis
    using hit getNotifications_hit by blast
next
  case True
  show ?thesis
  proof (cases "fst (fetch_all r a l w)")
    case Thrown
    then have "getNotifications r a l f w = (Returns [], snd (fetch_all r a l w))"
      using getNotifications_miss [OF True, of r] by (simp add: case_prod_beta)
    then show ?thesis using failed True Thrown by blast
  next
    case (Returns x)
    obtain tx jt gs m where x: "x = (tx, jt, gs, m)"
      by (cases x) auto
    have "getNotifications r a l f w =
         (Returns (merged a l tx jt gs m),
          (snd (fetch_all r a l w))\<lparr>notificationCache :=
             (notificationCache w)(cacheKey a l \<mapsto> merged a l tx jt gs m)\<rparr>)"
      using getNotifications_miss [OF True, of r] Returns x by (simp add: case_prod_beta)
    then show ?thesis using fetched True Returns x by blast
  qed
qed

lemma getNotifications0_cases [case_names hit failed fetched]:
  obtains
    (hit) c where "\<not> f" "notificationCache w (cacheKey a l) = Some c"
      "getNotifications0 r a l f w = (Returns c, w)"
  | (failed) "f \<or> notificationCache w (cacheKey a l) = None"
      "fst (fetch_all0 r a l w) = Thrown"
      "getNotifications0 r a l f w = (Returns [], snd (fetch_all0 r a l w))"
  | (fetched) tx gs m where "f \<or> notificationCache w (cacheKey a l) = None"
      "fst (fetch_all0 r a l w) = Returns (tx, gs, m)"
      "getNotifications0 r a l f w =
         (Returns (merged0 a l tx gs m),
          (snd (fetch_all0 r a l w))\<lparr>notificationCache :=
             (notificationCache w)(cacheKey a l \<mapsto> merged0 a l tx gs m)\<rparr>)"
proof (cases "f \<or> notificationCache w (cacheKey a l) = None")
  case False
  then obtain c where "\<not> f" "notificationCache w (cacheKey a l) = Some c"
    by auto
  then show ?thesis
    using hit getNotifications_hit by blast
next
  case True
  show ?thesis
  proof (cases "fst (fetch_all0 r a l w)")
    case Thrown
    then have "getNotifications0 r a l f w = (Returns [], snd (fetch_all0 r a l w))"
      using getNotifications0_miss [OF True, of r] by (simp add: case_prod_beta)
    then show ?thesis using failed True Thrown by blast
  next
    case (Returns x)
    obtain tx gs m where x: "x = (tx, gs, m)"
      by (cases x) auto
    have "getNotifications0 r a l f w =
         (Returns (merged0 a l tx gs m),
          (snd (fetch_all0 r a l w))\<lparr>notificationCache :=
             (notificationCache w)(cacheKey a l \<mapsto> merged0 a l tx gs m)\<rparr>)"
      using getNotifications0_miss [OF True, of r] Returns x by (simp add: case_prod_beta)
    then show ?thesis using fetched True Returns x by blast
  qed
qed

lemma cache_bounded_update:
  "cache_bounded c \<Longrightarrow> length ns \<le> l \<Longrightarrow> cache_bounded (c(cacheKey a l \<mapsto> ns))"
  unfolding cache_bounded_def
  by (auto dest: cacheKey_inj split: option.splits)

lemma cache_sorted_update:
  "cache_sorted c \<Longrightarrow> sorted_wrt (\<ge>) (instants ns) \<Longrightarrow> cache_sorted (c(k \<mapsto> ns))"
  unfolding cache_sorted_def
  by (auto split: option.splits)

lemma cache_bounded_lookup:
  "cache_bounded c \<Longrightarrow> c (cacheKey a l) = Some ns \<Longrightarrow> length ns \<le> l"
  unfolding cache_bounded_def by (metis option.simps(5))

lemma cache_sorted_lookup:
  "cache_sorted c \<Longrightarrow> c k = Some ns \<Longrightarrow> sorted_wrt (\<ge>) (instants ns)"
  unfolding cache_sorted_def by (metis option.simps(5))

lemma length_merged: "length (merged a l tx jt gs m) \<le> l" "length (merged0 a l tx gs m) \<le> l"
  by (simp_all add: merged_def merged0_def)

lemma sorted_merged:
  assumes "\<forall>n\<in>set tx. parses (tn_created_at n)" "\<forall>n\<in>set jt. parses (tn_created_at n)"
    "\<forall>g\<in>set gs. parses (gn_created_at g)"
  shows "sorted_wrt (\<ge>) (instants (merged a l tx jt gs m))"
  unfolding merged_def
  using assms
  by (intro sorted_instants)
     (auto simp add: formattedTransactionNotifications_def formattedJatuhTempoNotifications_def
        formattedGlobalNotifications_def)

lemma sorted_merged0:
  assumes "\<forall>n\<in>set tx. parses (tn_created_at n)" "\<forall>g\<in>set gs. parses (gn_created_at g)"
  shows "sorted_wrt (\<ge>) (instants (merged0 a l tx gs m))"
  unfolding merged0_def
  using assms
  by (intro sorted_instants)
     (auto simp add: formattedTransactionNotifications_def formattedGlobalNotifications0_def)

lemma dates_parse_rows:
  assumes "dates_parse r (db w) a l"
  shows "set tx \<subseteq> set (delivered_transaction_rows r (db w) a l) \<Longrightarrow>
           \<forall>n\<in>set tx. parses (tn_created_at n)"
    and "set jt \<subseteq> set (transaksi_notifikasi (db w)) \<Longrightarrow> \<forall>n\<in>set jt. parses (tn_created_at n)"
    and "set gs \<subseteq> set (delivered_global_rows r (db w) a) \<Longrightarrow>
           \<forall>g\<in>set gs. parses (gn_created_at g)"
    and "set gs \<subseteq> set (global_notifikasi (db w)) \<Longrightarrow> \<forall>g\<in>set gs. parses (gn_created_at g)"
  using assms
  by (auto simp add: dates_parse_def delivered_transaction_rows_def delivered_global_rows_def)

lemma getNotifications_bounded:
  assumes "cache_bounded (notificationCache w)"
  shows "\<exists>ns. fst (getNotifications r a l f w) = Returns ns \<and> length ns \<le> l"
    and "cache_bounded (notificationCache (snd (getNotifications r a l f w)))"
proof -
  show "\<exists>ns. fst (getNotifications r a l f w) = Returns ns \<and> length ns \<le> l"
    using assms
    by (cases rule: getNotifications_cases [of f w a l r])
       (simp_all add: cache_bounded_lookup length_merged)
  show "cache_bounded (notificationCache (snd (getNotifications r a l f w)))"
    using assms
    by (cases rule: getNotifications_cases [of f w a l r])
       (simp_all add: cache_bounded_update length_merged)
qed

lemma getNotifications0_bounded:
  assumes "cache_bounded (notificationCache w)"
  shows "\<exists>ns. fst (getNotifications0 r a l f w) = Returns ns \<and> length ns \<le> l"
    and "cache_bounded (notificationCache (snd (getNotifications0 r a l f w)))"
proof -
  show "\<exists>ns. fst (getNotifications0 r a l f w) = Returns ns \<and> length ns \<le> l"
    using assms
    by (cases rule: getNotifications0_cases [of f w a l r])
       (simp_all add: cache_bounded_lookup length_merged)
  show "cache_bounded (notificationCache (snd (getNotifications0 r a l f w)))"
    using assms
    by (cases rule: getNotifications0_cases [of f w a l r])
       (simp_all add: cache_bounded_update length_merged)
qed

lemma getNotifications_sorted:
  assumes "cache_sorted (notificationCache w)" "dates_parse r (db w) a l"
  shows "\<forall>ns. fst (getNotifications r a l f w) = Returns ns \<longrightarrow> sorted_wrt (\<ge>) (instants ns)"
    and "cache_sorted (notificationCache (snd (getNotifications r a l f w)))"
proof -
  have s: "sorted_wrt (\<ge>) (instants (merged a l tx jt gs m))"
    if "fst (fetch_all r a l w) = Returns (tx, jt, gs, m)" for tx jt gs m
    using fetch_all_rows [OF that] dates_parse_rows [OF assms(2)]
    by (intro sorted_merged) blast+
  show "\<forall>ns. fst (getNotifications r a l f w) = Returns ns \<longrightarrow> sorted_wrt (\<ge>) (instants ns)"
  proof (cases rule: getNotifications_cases [of f w a l r])
    case (hit c)
    then show ?thesis
      using assms(1) cache_sorted_lookup by auto
  next
    case failed
    then show ?thesis
      by (simp add: instants_def List.map_filter_simps)
  next
    case fetched
    then show ?thesis
      using s by simp
  qed
  show "cache_sorted (notificationCache (snd (getNotifications r a l f w)))"
    using assms(1) s
    by (cases rule: getNotifications_cases [of f w a l r])
       (simp_all add: cache_sorted_update)
qed

lemma getNotifications0_sorted:
  assumes "cache_sorted (notificationCache w)" "dates_parse r (db w) a l"
  shows "\<forall>ns. fst (getNotifications0 r a l f w) = Returns ns \<longrightarrow> sorted_wrt (\<ge>) (instants ns)"
    and "cache_sorted (notificationCache (snd (getNotifications0 r a l f w)))"
proof -
  have s: "sorted_wrt (\<ge>) (instants (merged0 a l tx gs m))"
    if "fst (fetch_all0 r a l w) = Returns (tx, gs, m)" for tx gs m
    using fetch_all0_rows [OF that] dates_parse_rows [OF assms(2)]
    by (intro sorted_merged0) blast+
  show "\<forall>ns. fst (getNotifications0 r a l f w) = Returns ns \<longrightarrow> sorted_wrt (\<ge>) (instants ns)"
  proof (cases rule: getNotifications0_cases [of f w a l r])
    case (hit c)
    then show ?thesis
      using assms(1) cache_sorted_lookup by auto
  next
    case failed
    then show ?thesis
      by (simp add: instants_def List.map_filter_simps)
  next
    case fetched
    then show ?thesis
      using s by simp
  qed
  show "cache_sorted (notificationCache (snd (getNotifications0 r a l f w)))"
    using assms(1) s
    by (cases rule: getNotifications0_cases [of f w a l r])
       (simp_all add: cache_sorted_update)
qed

subsection \<open>What the operations do to the cache\<close>

lemma cache_of_requests [simp]:
  "notificationCache (snd (respond r q x w)) = notificationCache w"
  "notificationCache (snd (respond_single r q rows w)) = notificationCache w"
  "notificationCache (snd (respond_mutation r q g w)) = notificationCache w"
  by (simp_all add: respond_mutation_eq split: fault.splits)

lemma cache_of_selects [simp]:
  "notificationCache (snd (count_transaksi_notifikasi_unread r w)) = notificationCache w"
  "notificationCache (snd (count_global_notifikasi_read_unread r a w)) = notificationCache w"
  "notificationCache (snd (update_global_notifikasi_read_member r a w)) = notificationCache w"
  "notificationCache (snd (update_global_notifikasi_read_pair r n a w)) = notificationCache w"
  "notificationCache (snd (insert_global_notifikasi_read r n a w)) = notificationCache w"
  "notificationCache (snd (update_transaksi_notifikasi_id r n w)) = notificationCache w"
  "notificationCache (snd (rpc_mark_notification_as_read0 r n so a w)) = notificationCache w"
  "notificationCache (snd (rpc_get_member_notifications r a l w)) = notificationCache w"
  "notificationCache (snd (select_transaksi_notifikasi_id0 r n w)) = notificationCache w"
  "notificationCache (snd (select_global_notifikasi_id0 r n w)) = notificationCache w"
  "notificationCache (snd (select_global_notifikasi_read_pair0 r n a w)) = notificationCache w"
  by (simp_all add: count_transaksi_notifikasi_unread_def count_global_notifikasi_read_unread_def
        update_global_notifikasi_read_member_def update_global_notifikasi_read_pair_def
        insert_global_notifikasi_read_def update_transaksi_notifikasi_id_def
        rpc_mark_notification_as_read0_def rpc_get_member_notifications_def
        select_transaksi_notifikasi_id0_def select_global_notifikasi_id0_def
        select_global_notifikasi_read_pair0_def case_prod_beta send_grows)

lemma getUnreadCount_cache:
  "notificationCache (snd (getUnreadCount r a w)) = notificationCache w"
  by (simp add: getUnreadCount_def case_prod_beta split: reply.splits)

lemma markAllAsRead_cache:
  "notificationCache (snd (markAllAsRead r a w)) = notificationCache w"
  by (cases "fault r Select_transaksi"; cases "fault r Update_transaksi_notifikasi_in")
     (simp_all add: markAllAsRead_def markAllAsRead_transactions_eq case_prod_beta
        split: reply.splits)

lemma byType_cache:
  "notificationCache (snd (byType_global_query r a t l w)) = notificationCache w"
  "notificationCache (snd (byType_transaction_query r a t l w)) = notificationCache w"
  by (simp_all add: byType_global_query_def byType_transaction_query_def case_prod_beta
        split: reply.splits)

lemma getNotificationsByType_cache:
  "notificationCache (snd (getNotificationsByType r a t l w)) = notificationCache w"
  "notificationCache (snd (getNotificationsByType0 r a t l w)) = notificationCache w"
  by (simp_all add: getNotificationsByType_def getNotificationsByType0_def case_prod_beta
        byType_cache split: reply.splits outcome.splits)

lemma markAsReadDirect_cache:
  "notificationCache (snd (markAsReadDirect r n src m w)) = notificationCache w"
proof (cases "truthy m")
  case False
  then show ?thesis by (simp add: markAsReadDirect_def)
next
  case True
  then show ?thesis
    by (cases src) (simp_all add: markAsReadDirect_auto markAsReadDirect_given markAsReadDirectly_cache)
qed

lemma markAsRead_cache:
  "notificationCache (snd (markAsRead r n src m w)) = notificationCache w \<or>
   notificationCache (snd (markAsRead r n src m w)) = Map.empty"
proof (cases "truthy m")
  case False
  then show ?thesis by (simp add: markAsRead_def)
next
  case True
  then show ?thesis
    by (simp add: markAsRead_eq markAsReadUsingFunction_eq markAsReadDirect_cache)
qed

lemma detect_source_cache:
  "notificationCache (snd (detect_source r n src m w)) = notificationCache w"
  by (simp add: detect_source_def case_prod_beta split: reply.splits option.splits)

lemma markAsReadDirectly0_blocks_cache:
  "notificationCache (snd (markAsReadDirectly0_transaction r n w)) = notificationCache w \<or>
   notificationCache (snd (markAsReadDirectly0_transaction r n w)) = Map.empty"
  "notificationCache (snd (markAsReadDirectly0_global r n m w)) = notificationCache w \<or>
   notificationCache (snd (markAsReadDirectly0_global r n m w)) = Map.empty"
  by (simp_all add: markAsReadDirectly0_transaction_def markAsReadDirectly0_global_def
        case_prod_beta split: reply.splits)

lemma markAsReadDirectly0_cache:
  "notificationCache (snd (markAsReadDirectly0 r n src m w)) = notificationCache w \<or>
   notificationCache (snd (markAsReadDirectly0 r n src m w)) = Map.empty"
proof -
  let ?w1 = "snd (detect_source r n src m w)"
  let ?t = "markAsReadDirectly0_transaction r n ?w1"
  have 1: "notificationCache ?w1 = notificationCache w"
    by (rule detect_source_cache)
  have 2: "notificationCache (snd ?t) = notificationCache w \<or> notificationCache (snd ?t) = Map.empty"
    using markAsReadDirectly0_blocks_cache(1) [of r n ?w1] 1 by simp
  have 3: "notificationCache (snd (markAsReadDirectly0_global r n m w')) = notificationCache w \<or>
     notificationCache (snd (markAsReadDirectly0_global r n m w')) = Map.empty"
    if "notificationCache w' = notificationCache w \<or> notificationCache w' = Map.empty" for w'
    using markAsReadDirectly0_blocks_cache(2) [of r n m w'] that by auto
  show ?thesis
    using 1 2 3 [of ?w1] 3 [of "snd ?t"]
    by (simp add: markAsReadDirectly0_def case_prod_beta split: outcome.splits option.splits)
qed

lemma markAsRead0_cache:
  "notificationCache (snd (markAsRead0 r n src m w)) = notificationCache w \<or>
   notificationCache (snd (markAsRead0 r n src m w)) = Map.empty"
proof -
  let ?w1 = "snd (rpc_mark_notification_as_read0 r n src (the m) w)"
  have "notificationCache ?w1 = notificationCache w"
    by simp
  then have "notificationCache (snd (markAsReadDirectly0 r n src m ?w1)) = notificationCache w \<or>
     notificationCache (snd (markAsReadDirectly0 r n src m ?w1)) = Map.empty"
    using markAsReadDirectly0_cache [of r n src m ?w1] by simp
  then show ?thesis
    by (simp add: markAsRead0_def case_prod_beta split: reply.splits bool.splits)
qed

lemma cache_bounded_empty: "cache_bounded Map.empty"
  by (simp add: cache_bounded_def)

lemma reachable_cache_bounded: "reachable w \<Longrightarrow> cache_bounded (notificationCache w)"
proof (induction rule: reachable.induct)
  case (markAsRead w r n s m)
  then show ?case
    using markAsRead_cache [of r n s m w] by (auto simp add: cache_bounded_empty)
next
  case (markAsRead0 w r n s m)
  then show ?case
    using markAsRead0_cache [of r n s m w] by (auto simp add: cache_bounded_empty)
next
  case (markAsReadDirectly0 w r n s m)
  then show ?case
    using markAsReadDirectly0_cache [of r n s m w] by (auto simp add: cache_bounded_empty)
qed (simp_all add: cache_bounded_empty getNotifications_bounded getNotifications0_bounded
      getNotificationsByType_cache getUnreadCount_cache markAllAsRead_cache
      markAsReadDirect_cache markAsReadDirectly_cache markAsReadUsingFunction_eq)


section \<open>The cache\<close>

lemma sent_cache_update [simp]: "sent w (w'\<lparr>notificationCache := c\<rparr>) = sent w w'"
  by (simp add: sent_def)

lemma fst_selects_no_throw:
  assumes "\<forall>q. fault r q \<noteq> Throwing"
  shows "fst (select_transaksi r a w) \<noteq> Throws"
    "fst (select_transaksi_notifikasi_in r ids l w) \<noteq> Throws"
    "fst (select_global_notifikasi r w) \<noteq> Throws"
    "fst (select_global_notifikasi_read_member r a w) \<noteq> Throws"
  using assms
  by (auto simp add: select_transaksi_def select_transaksi_notifikasi_in_def
        select_global_notifikasi_def select_global_notifikasi_read_member_def respond_eq
        split: fault.splits)

lemma fetch_transactionNotifications_no_throw:
  assumes "never_throws r (db w) a l"
  shows "fst (fetch_transactionNotifications r a l w) \<noteq> Thrown"
  using assms fst_selects_no_throw(1,2) [of r]
  by (simp add: never_throws_def fetch_transactionNotifications_def case_prod_beta fst_rpcs
        split: reply.splits)

lemma fetch_globalNotifications_no_throw:
  assumes "\<forall>q. fault r q \<noteq> Throwing"
  shows "fst (fetch_globalNotifications r a w) \<noteq> Thrown"
    "fst (fetch_globalNotifications0 r a w) \<noteq> Thrown"
  using fst_selects_no_throw(3,4) [OF assms]
  by (simp_all add: fetch_globalNotifications_def fetch_globalNotifications0_def
        case_prod_beta Let_def split: reply.splits)

lemma fetch_all_no_throw:
  assumes "never_throws r (db w) a l"
  shows "fst (fetch_all r a l w) \<noteq> Thrown" "fst (fetch_all0 r a l w) \<noteq> Thrown"
proof -
  have q: "\<forall>q. fault r q \<noteq> Throwing"
    using assms by (simp add: never_throws_def)
  show "fst (fetch_all r a l w) \<noteq> Thrown"
    using fetch_transactionNotifications_no_throw [OF assms]
      fetch_globalNotifications_no_throw(1) [OF q]
    by (simp add: fetch_all_def case_prod_beta split: outcome.splits)
  show "fst (fetch_all0 r a l w) \<noteq> Thrown"
    using fetch_transactionNotifications_no_throw [OF assms]
      fetch_globalNotifications_no_throw(2) [OF q]
    by (simp add: fetch_all0_def case_prod_beta split: outcome.splits)
qed

lemma getNotifications_again:
  "notificationCache (snd (getNotifications r a l False w)) (cacheKey a l) \<noteq> None \<Longrightarrow>
     getNotifications r' a l False (snd (getNotifications r a l False w)) =
       getNotifications r a l False w"
  by (cases rule: getNotifications_cases [of False w a l r])
     (simp_all add: getNotifications_def)

lemma getNotifications0_again:
  "notificationCache (snd (getNotifications0 r a l False w)) (cacheKey a l) \<noteq> None \<Longrightarrow>
     getNotifications0 r' a l False (snd (getNotifications0 r a l False w)) =
       getNotifications0 r a l False w"
  by (cases rule: getNotifications0_cases [of False w a l r])
     (simp_all add: getNotifications0_def)

lemma getNotifications_stores:
  "never_throws r (db w) a l \<Longrightarrow>
     notificationCache (snd (getNotifications r a l False w)) (cacheKey a l) \<noteq> None"
  using fetch_all_no_throw(1) [of r w a l]
  by (cases rule: getNotifications_cases [of False w a l r]) simp_all

lemma getNotifications0_stores:
  "never_throws r (db w) a l \<Longrightarrow>
     notificationCache (snd (getNotifications0 r a l False w)) (cacheKey a l) \<noteq> None"
  using fetch_all_no_throw(2) [of r w a l]
  by (cases rule: getNotifications0_cases [of False w a l r]) simp_all

lemma getNotifications_refetch:
  "sent w (snd (getNotifications r a l True w)) \<noteq> []"
  using fetch_all_sent [of w r a l]
  by (cases rule: getNotifications_cases [of True w a l r]) simp_all

lemma getNotifications0_refetch:
  "sent w (snd (getNotifications0 r a l True w)) \<noteq> []"
  using fetch_all0_sent [of w r a l]
  by (cases rule: getNotifications0_cases [of True w a l r]) simp_all


section \<open>No exception reaches the caller\<close>

lemma failed_respond:
  "fault r q \<noteq> No_Fault \<Longrightarrow> failed (fst (respond r q x w))"
  "fault r q \<noteq> No_Fault \<Longrightarrow> failed (fst (respond_single r q rows w))"
  "fault r q \<noteq> No_Fault \<Longrightarrow> failed (fst (respond_mutation r q g w))"
  by (simp_all add: respond_eq respond_single_eq respond_mutation_eq failed_def split: fault.splits)

lemma failed_requests:
  assumes "offline r"
  shows "failed (fst (select_transaksi r a w))"
    "failed (fst (select_transaksi_notifikasi_in r ids l w))"
    "failed (fst (select_transaksi_notifikasi_jenis r j l w))"
    "failed (fst (select_global_notifikasi_inner r a w))"
    "failed (fst (select_global_notifikasi r w))"
    "failed (fst (select_global_notifikasi_read_member r a w))"
    "failed (fst (select_global_notifikasi_left r j l w))"
    "failed (fst (rpc_get_member_transaction_notifications r a l w))"
    "failed (fst (rpc_get_member_global_notifications r a w))"
    "failed (fst (count_transaksi_notifikasi_unread r w))"
    "failed (fst (select_transaksi_notifikasi_id r n w))"
    "failed (fst (select_global_notifikasi_id r n w))"
    "failed (fst (rpc_mark_notification_as_read r n a s w))"
    "failed (fst (rpc_mark_notification_as_read0 r n so a w))"
    "failed (fst (rpc_get_member_notifications r a l w))"
    "failed (fst (select_transaksi_notifikasi_id0 r n w))"
    "failed (fst (select_global_notifikasi_id0 r n w))"
  using assms
  by (simp_all add: offline_def failed_respond select_transaksi_def
        select_transaksi_notifikasi_in_def select_transaksi_notifikasi_jenis_def
        select_global_notifikasi_inner_def select_global_notifikasi_def
        select_global_notifikasi_read_member_def select_global_notifikasi_left_def
        fst_rpcs count_transaksi_notifikasi_unread_def select_transaksi_notifikasi_id_def
        select_global_notifikasi_id_def rpc_mark_notification_as_read_def
        rpc_mark_notification_as_read0_def rpc_get_member_notifications_def
        select_transaksi_notifikasi_id0_def select_global_notifikasi_id0_def case_prod_beta)

lemma offline_fetch:
  assumes "offline r"
  shows "fst (fetch_transactionNotifications r a l w) = Thrown \<or>
         fst (fetch_transactionNotifications r a l w) = Returns []"
    and "fst (fetch_jatuhTempoNotifications r l w) = []"
    and "fst (fetch_globalNotifications r a w) = Thrown \<or>
         fst (fetch_globalNotifications r a w) = Returns ([], Map.empty)"
    and "fst (fetch_globalNotifications0 r a w) = Thrown \<or>
         fst (fetch_globalNotifications0 r a w) = Returns ([], Map.empty)"
proof -
  note f = failed_requests [OF assms]
  show "fst (fetch_transactionNotifications r a l w) = Thrown \<or>
         fst (fetch_transactionNotifications r a l w) = Returns []"
    using f(8) [of a l w] f(1) [of a "grows_by w [Rpc_get_member_transaction_notifications]"]
    by (auto simp add: fetch_transactionNotifications_def case_prod_beta failed_def
          split: reply.splits)
  show "fst (fetch_jatuhTempoNotifications r l w) = []"
    using f(3) [of "''jatuh_tempo''" l w]
    by (auto simp add: fetch_jatuhTempoNotifications_def case_prod_beta failed_def
          split: reply.splits)
  show "fst (fetch_globalNotifications r a w) = Thrown \<or>
         fst (fetch_globalNotifications r a w) = Returns ([], Map.empty)"
    using f(9) [of a w] f(4) [of a "grows_by w [Rpc_get_member_global_notifications]"]
      f(5) [of "grows_by w [Rpc_get_member_global_notifications, Select_global_notifikasi_inner]"]
      f(6) [of a "grows_by w [Rpc_get_member_global_notifications, Select_global_notifikasi_inner,
                    Select_global_notifikasi]"]
    by (auto simp add: fetch_globalNotifications_def case_prod_beta Let_def failed_def
          split: reply.splits)
  show "fst (fetch_globalNotifications0 r a w) = Thrown \<or>
         fst (fetch_globalNotifications0 r a w) = Returns ([], Map.empty)"
    using f(5) [of w] f(6) [of a "grows_by w [Select_global_notifikasi]"]
    by (auto simp add: fetch_globalNotifications0_def case_prod_beta Let_def failed_def
          split: reply.splits)
qed

lemma merged_empty [simp]: "merged a l [] [] [] m = []" "merged0 a l [] [] m = []"
  by (simp_all add: merged_def merged0_def js_sort_def sort_by_def
        formattedTransactionNotifications_def formattedJatuhTempoNotifications_def
        formattedGlobalNotifications_def formattedGlobalNotifications0_def)

lemma offline_getNotifications:
  assumes "offline r"
  shows "fst (getNotifications r a l True w) = Returns []"
    and "fst (getNotifications0 r a l True w) = Returns []"
proof -
  show "fst (getNotifications r a l True w) = Returns []"
  proof (cases rule: getNotifications_cases [of True w a l r])
    case (fetched tx jt gs m)
    then have "tx = [] \<and> jt = [] \<and> gs = []"
      using offline_fetch(1) [OF assms, of a l w]
        offline_fetch(2) [OF assms, of l "snd (fetch_transactionNotifications r a l w)"]
        offline_fetch(3) [OF assms, of a "snd (fetch_jatuhTempoNotifications r l
             (snd (fetch_transactionNotifications r a l w)))"]
      by (auto simp add: fetch_all_def case_prod_beta split: outcome.splits)
    then show ?thesis using fetched by simp
  qed simp_all
  show "fst (getNotifications0 r a l True w) = Returns []"
  proof (cases rule: getNotifications0_cases [of True w a l r])
    case (fetched tx gs m)
    then have "tx = [] \<and> gs = []"
      using offline_fetch(1) [OF assms, of a l w]
        offline_fetch(4) [OF assms, of a "snd (fetch_transactionNotifications r a l w)"]
      by (auto simp add: fetch_all0_def case_prod_beta split: outcome.splits)
    then show ?thesis using fetched by simp
  qed simp_all
qed

lemma catch_returns:
  "fst (case x of (Thrown, w') \<Rightarrow> (Returns d, w') | (Returns res, w') \<Rightarrow> (Returns res, w')) \<noteq> Thrown"
  by (cases x; cases "fst x") auto

lemma getNotificationsByType_total:
  "fst (getNotificationsByType r a t l w) \<noteq> Thrown"
  "fst (getNotificationsByType0 r a t l w) \<noteq> Thrown"
  unfolding getNotificationsByType_def getNotificationsByType0_def
  by (rule catch_returns)+

lemma offline_byType_queries:
  assumes "offline r"
  shows "fst (byType_global_query r a t l w) = Thrown \<or> fst (byType_global_query r a t l w) = Returns []"
    and "fst (byType_transaction_query r a t l w) = Thrown \<or>
         fst (byType_transaction_query r a t l w) = Returns []"
  using failed_requests(7) [OF assms, of t l w] failed_requests(3) [OF assms, of t l w]
  by (auto simp add: byType_global_query_def byType_transaction_query_def case_prod_beta
        failed_def split: reply.splits)

lemma offline_getNotificationsByType:
  assumes "offline r"
  shows "fst (getNotificationsByType r a t l w) = Returns []"
    and "fst (getNotificationsByType0 r a t l w) = Returns []"
proof -
  show "fst (getNotificationsByType r a t l w) = Returns []"
    using failed_requests(9) [OF assms, of a w]
      offline_byType_queries(1) [OF assms, of a t l "grows_by w [Rpc_get_member_global_notifications]"]
      offline_byType_queries(2) [OF assms, of a t l w]
    by (auto simp add: getNotificationsByType_def case_prod_beta failed_def
          split: reply.splits outcome.splits)
  show "fst (getNotificationsByType0 r a t l w) = Returns []"
    using offline_byType_queries [OF assms, of a t l w]
    by (auto simp add: getNotificationsByType0_def case_prod_beta split: outcome.splits)
qed

lemma getUnreadCount_total: "fst (getUnreadCount r a w) \<noteq> Thrown"
  by (simp add: getUnreadCount_def case_prod_beta split: reply.splits)

lemma offline_getUnreadCount: "offline r \<Longrightarrow> fst (getUnreadCount r a w) = Returns 0"
  using failed_requests(10) [of r w]
  by (auto simp add: getUnreadCount_def case_prod_beta failed_def split: reply.splits)

lemma markAllAsRead_total: "fst (markAllAsRead r a w) \<noteq> Thrown"
  by (simp add: markAllAsRead_def case_prod_beta split: reply.splits outcome.splits)

lemma offline_markAllAsRead: "offline r \<Longrightarrow> fst (markAllAsRead r a w) = Returns False"
  by (cases "fault r Select_transaksi")
     (simp_all add: markAllAsRead_def markAllAsRead_transactions_eq offline_def case_prod_beta
        update_global_notifikasi_read_member_def respond_mutation_eq split: fault.splits)

lemma markAsRead_total: "fst (markAsRead r n src anggotaId w) \<noteq> Thrown"
  by (cases "truthy anggotaId") (simp_all add: markAsRead_eq, simp add: markAsRead_def)

lemma offline_markAsReadDirectly:
  "offline r \<Longrightarrow> fst (markAsReadDirectly r n s a w) = Returns False"
  by (cases s)
     (simp_all add: offline_def markAsReadDirectly_Transaction_eq markAsReadDirectly_Global_eq
        split: fault.splits)

lemma offline_markAsRead:
  assumes "offline r"
  shows "fst (markAsRead r n src anggotaId w) = Returns False"
proof (cases "truthy anggotaId")
  case False
  then show ?thesis by (simp add: markAsRead_def)
next
  case True
  have d: "fst (markAsReadDirect r n src anggotaId w) = Returns False"
    using True offline_markAsReadDirectly [OF assms]
    by (cases src) (simp_all add: markAsReadDirect_auto markAsReadDirect_given)
  have "fst (markAsReadUsingFunction r n src (the anggotaId) w') = Returns False" for w'
  proof -
    have "failed (fst (mark_notification_as_read r (db w') n (the anggotaId)
            (case src of None \<Rightarrow> ''auto'' | Some s \<Rightarrow> source_name s)))"
      using assms by (simp add: offline_def)
    then show ?thesis
      by (simp add: markAsReadUsingFunction_eq failed_def split: reply.splits)
  qed
  then show ?thesis
    using True d by (simp add: markAsRead_eq)
qed

lemma catch_option:
  "fst (case x of (Thrown, w2) \<Rightarrow> (Returns False, w2)
        | (Returns (Some result), w2) \<Rightarrow> (Returns result, w2)
        | (Returns None, w2) \<Rightarrow> k w2) \<noteq> Thrown"
  if "\<And>w2. fst (k w2) \<noteq> Thrown"
  using that by (cases x; cases "fst x") (auto split: option.splits)

lemma markAsReadDirectly0_total: "fst (markAsReadDirectly0 r n src anggotaId w) \<noteq> Thrown"
  unfolding markAsReadDirectly0_def
  by (simp add: case_prod_beta catch_option split: outcome.splits option.splits)

lemma markAsRead0_total: "fst (markAsRead0 r n src anggotaId w) \<noteq> Thrown"
  using markAsReadDirectly0_total
  by (simp add: markAsRead0_def case_prod_beta split: reply.splits bool.splits)

lemma offline_markAsReadDirectly0:
  assumes "offline r"
  shows "fst (markAsReadDirectly0 r n src anggotaId w) = Returns False"
proof -
  note f = failed_requests [OF assms]
  have d: "fst (detect_source r n src anggotaId w) = src"
    using f(15) [of "the anggotaId" 50 w]
    by (auto simp add: detect_source_def case_prod_beta failed_def split: reply.splits)
  have t: "fst (markAsReadDirectly0_transaction r n w') = Thrown \<or>
           fst (markAsReadDirectly0_transaction r n w') = Returns None" for w'
    using f(16) [of n w']
    by (auto simp add: markAsReadDirectly0_transaction_def case_prod_beta failed_def
          split: reply.splits)
  have g: "fst (markAsReadDirectly0_global r n anggotaId w') = Thrown \<or>
           fst (markAsReadDirectly0_global r n anggotaId w') = Returns None" for w'
    using f(17) [of n w']
    by (auto simp add: markAsReadDirectly0_global_def case_prod_beta failed_def
          split: reply.splits)
  obtain w1 where ds: "detect_source r n src anggotaId w = (src, w1)"
    using d by (cases "detect_source r n src anggotaId w") auto
  show ?thesis
  proof (cases "src = Some Global")
    case True
    then show ?thesis
      using ds g [of w1]
      by (auto simp add: markAsReadDirectly0_def case_prod_beta)
  next
    case False
    then have c: "src = None \<or> src = Some Transaction"
      by (cases src) (auto intro: source.exhaust)
    show ?thesis
    proof (cases "fst (markAsReadDirectly0_transaction r n w1)")
      case Thrown
      then show ?thesis
        using ds c by (auto simp add: markAsReadDirectly0_def case_prod_beta)
    next
      case (Returns x)
      then have x: "x = None"
        using t [of w1] by simp
      show ?thesis
        using ds c Returns x g [of "snd (markAsReadDirectly0_transaction r n w1)"]
        by (auto simp add: markAsReadDirectly0_def case_prod_beta)
    qed
  qed
qed

lemma offline_markAsRead0:
  assumes "offline r"
  shows "fst (markAsRead0 r n src anggotaId w) = Returns False"
  using failed_requests(14) [OF assms, of n src "the anggotaId" w]
    offline_markAsReadDirectly0 [OF assms]
  by (auto simp add: markAsRead0_def case_prod_beta failed_def split: reply.splits)


section \<open>The feed in the example world\<close>

lemma example_feed_eq:
  "fst (getNotifications example_remote ''M1'' 50 True example_world) = Returns example_feed"
  by code_simp

lemma example_reachable: "reachable example_world"
  unfolding example_world_def by (rule reachable.start)

lemma example_cache_sorted: "cache_sorted (notificationCache example_world)"
  by (simp add: cache_sorted_def example_world_def)

lemma example_dates_parse: "dates_parse example_remote (db example_world) ''M1'' 50"
  by (simp add: dates_parse_def delivered_transaction_rows_def delivered_global_rows_def
        example_remote_def example_world_def example_db_def parses_def)



lemma example_never_throws: "never_throws example_remote (db example_world) ''M1'' 50"
  by (simp add: never_throws_def example_remote_def)



lemma example_offline: "offline (example_remote\<lparr>fault := (\<lambda>q. Fails)\<rparr>)"
  by (simp add: offline_def failed_def example_remote_def)


section \<open>The category of a global notification\<close>

lemma merged_global:
  "n \<in> set (merged a l tx jt gs m) \<Longrightarrow> n_source n = Global \<Longrightarrow>
     \<exists>g\<in>set gs. gn_id g = n_id n \<and> gn_jenis g = n_jenis n"
  by (fastforce simp add: merged_def formattedTransactionNotifications_def
        formattedJatuhTempoNotifications_def formattedGlobalNotifications_def
        dest!: in_set_takeD)




section \<open>The \<^verbatim>\<open>jatuh_tempo\<close> notifications of all members\<close>

lemma fetch_jatuhTempoNotifications_value:
  "fault r Select_transaksi_notifikasi_jenis = No_Fault \<Longrightarrow>
     fst (fetch_jatuhTempoNotifications r l w) =
       take l (order_desc tn_created_at
         (filter (\<lambda>n. tn_jenis n = Some ''jatuh_tempo'') (transaksi_notifikasi (db w))))"
  by (simp add: fetch_jatuhTempoNotifications_def select_transaksi_notifikasi_jenis_def respond_eq)

lemma fetch_all_jatuh_tempo:
  assumes "fault r Select_transaksi_notifikasi_jenis = No_Fault"
    "fst (fetch_all r a l w) = Returns (tx, jt, gs, m)"
  shows "jt = take l (order_desc tn_created_at
         (filter (\<lambda>n. tn_jenis n = Some ''jatuh_tempo'') (transaksi_notifikasi (db w))))"
proof -
  have "jt = fst (fetch_jatuhTempoNotifications r l (snd (fetch_transactionNotifications r a l w)))"
    using assms(2) by (auto simp add: fetch_all_def case_prod_beta split: outcome.splits)
  then show ?thesis
    using fetch_jatuhTempoNotifications_value [OF assms(1)] by simp
qed

lemma getNotifications_fetched:
  "fst (fetch_all r a l w) = Returns (tx, jt, gs, m) \<Longrightarrow>
     fst (getNotifications r a l True w) = Returns (merged a l tx jt gs m)"
  by (cases rule: getNotifications_cases [of True w a l r]) simp_all

lemma example_feed_foreign:
  "\<exists>n\<in>set example_feed. \<exists>t\<in>set (transaksi (db example_world)).
      n_transaksi_id n = Some (t_id t) \<and> t_anggota_id t \<noteq> ''M1''"
  by (simp add: example_feed_def example_world_def example_db_def)

lemma example_feed_twice: "\<not> distinct (map n_id example_feed)"
  by (simp add: example_feed_def)



end
